theory Spec2Isabelle
  imports Complex_Main
begin

section \<open>JavaScript values\<close>

text \<open>
  A JavaScript string is a sequence of UTF-16 code units; a code unit is a natural number
  below 65536. String literals of the source are written \<open>lit ''...''\<close>.
\<close>

type_synonym jsstring = "nat list"

abbreviation lit :: "string \<Rightarrow> jsstring" where
  "lit \<equiv> map of_char"

text \<open>
  \<open>String.prototype.trim\<close> removes white space and line terminators from both ends:
  TAB, LF, VT, FF, CR, SP, NBSP, the Unicode space separators (U+1680, U+2000 to U+200A,
  U+202F, U+205F, U+3000), LS, PS and the byte order mark U+FEFF.
\<close>

definition isWhiteSpace :: "nat \<Rightarrow> bool" where
  "isWhiteSpace c =
     (c \<in> set [9, 10, 11, 12, 13, 32, 160, 5760, 8232, 8233, 8239, 8287, 12288, 65279]
      \<or> (8192 \<le> c \<and> c \<le> 8202))"

definition trim :: "jsstring \<Rightarrow> jsstring" where
  "trim s = rev (dropWhile isWhiteSpace (rev (dropWhile isWhiteSpace s)))"

text \<open>
  What \<open>JSON.parse\<close> returns, and \<open>undefined\<close> for a property that is not there.
  Numbers are exact rationals: no claim below depends on rounding.
\<close>

datatype json =
    JUndefined
  | JNull
  | JBool bool
  | JNum rat
  | JStr jsstring
  | JArr "json list"
  | JObj "(jsstring \<times> json) list"

fun truthy :: "json \<Rightarrow> bool" where
  "truthy JUndefined = False"
| "truthy JNull = False"
| "truthy (JBool b) = b"
| "truthy (JNum r) = (r \<noteq> 0)"
| "truthy (JStr s) = (s \<noteq> [])"
| "truthy (JArr xs) = True"
| "truthy (JObj kvs) = True"

text \<open>
  Member access \<open>v.k\<close> on a value that is neither \<open>null\<close> nor \<open>undefined\<close>, for the
  property names the handlers read (\<open>type\<close>, \<open>message\<close>, \<open>scenario\<close>, \<open>opening\<close>,
  \<open>text\<close>, \<open>analysis\<close>, \<open>filler_words\<close>, \<open>clarity_score\<close>, \<open>session_id\<close>, \<open>length\<close>).
  In a parsed object the last binding of a key wins.
\<close>

fun member :: "json \<Rightarrow> jsstring \<Rightarrow> json" where
  "member (JObj kvs) k = (case map_of (rev kvs) k of None \<Rightarrow> JUndefined | Some v \<Rightarrow> v)"
| "member (JArr xs) k = (if k = lit ''length'' then JNum (of_nat (length xs)) else JUndefined)"
| "member (JStr s) k = (if k = lit ''length'' then JNum (of_nat (length s)) else JUndefined)"
| "member v k = JUndefined"

text \<open>Optional chaining \<open>v?.k\<close> and the operator \<open>a || b\<close>.\<close>

definition opt_prop :: "json \<Rightarrow> jsstring \<Rightarrow> json" where
  "opt_prop v k = (if v = JUndefined \<or> v = JNull then JUndefined else member v k)"

definition js_or :: "json \<Rightarrow> json \<Rightarrow> json" where
  "js_or a b = (if truthy a then a else b)"

text \<open>\<open>encodeURIComponent\<close> throws a \<open>URIError\<close> on a lone surrogate.\<close>

fun wellFormed :: "jsstring \<Rightarrow> bool" where
  "wellFormed [] = True"
| "wellFormed [c] = (\<not> (55296 \<le> c \<and> c \<le> 57343))"
| "wellFormed (c # d # cs) =
     (if 55296 \<le> c \<and> c \<le> 56319 then 56320 \<le> d \<and> d \<le> 57343 \<and> wellFormed cs
      else if 56320 \<le> c \<and> c \<le> 57343 then False
      else wellFormed (d # cs))"

section \<open>The state of a mounted session view\<close>

datatype voice_state = Idle | Listening | Processing | Speaking

datatype ready_state = CONNECTING | OPEN | CLOSING | CLOSED

datatype recorder_state = Inactive | Recording | Paused

text \<open>Values that the code throws or catches.\<close>

datatype exn =
    ValidationError jsstring
  | TypeError
  | URIError
  | DOMException jsstring

text \<open>What the code writes to the console, and an exception that no handler catches.\<close>

datatype log =
    ParseFailed
  | StartFailed exn
  | AudioContextFailed exn
  | Uncaught exn

text \<open>
  Timers of \<open>setTimeout\<close>: the identifier of a timer is its position in the table; an
  entry is the delay in milliseconds, the callback, and whether the timer is still pending.
\<close>

datatype callback =
    CbConnectWs
  | CbThinkingSlow
  | CbFillerFlashOff
  | CbStopTimeout nat

type_synonym timer = "nat \<times> callback \<times> bool"

text \<open>
  An audio clip is the list of its chunks (their sizes). The promise of \<open>stopRecording\<close>
  is pending (with or without a turn waiting on it) or resolved with a clip or \<open>null\<close>.
\<close>

type_synonym clip = "nat list"

datatype promise = Pending bool | Resolved "clip option"

text \<open>
  What the browser answers to each step of starting a capture: \<open>None\<close> when the step
  succeeds, the exception it raises otherwise; and the frequency data that the analyser
  gives to the first run of the level loop.
\<close>

record media =
  getUserMedia :: "exn option"
  newAudioContext :: "exn option"
  createAnalyser :: "exn option"
  frequencyData :: "nat list"
  newMediaRecorder :: "exn option"
  recorderStart :: "exn option"

text \<open>A \<open>MediaRecorder\<close> object: its state, and the timer and promise its \<open>onstop\<close>
  handler closes over (when one is installed).\<close>

type_synonym recorder = "recorder_state \<times> (nat \<times> nat) option"

datatype route = Home | Feedback json

record world =
  \<comment> \<open>voice store\<close>
  state :: voice_state
  audioLevel :: "rat option"
  error :: "jsstring option"
  \<comment> \<open>app store\<close>
  currentSession :: json
  fillerCount :: json
  wpm :: json
  \<comment> \<open>use-audio-recorder\<close>
  mediaRecorderRef :: "nat option"
  recorders :: "recorder list"
  audioChunksRef :: clip
  analyserRef :: bool
  animationFrameRef :: bool
  streamRef :: "bool option"
  audioContextRef :: "bool option"
  promises :: "promise list"
  \<comment> \<open>use-text-to-speech\<close>
  intervalRef :: bool
  spoken :: "json list"
  \<comment> \<open>use-speech-recognition\<close>
  transcript :: jsstring
  interimTranscript :: jsstring
  recognitionRef :: bool
  isListeningRef :: bool
  \<comment> \<open>use-silence-detection\<close>
  rafRef :: bool
  \<comment> \<open>the session page\<close>
  transcriptRef :: jsstring
  aiQuestion :: json
  isHolding :: bool
  isRecording :: bool
  fillerFlash :: bool
  isThinking :: bool
  isThinkingSlow :: bool
  thinkingTimerRef :: "nat option"
  wsRef :: "nat option"
  reconnectCountRef :: nat
  reconnectTimerRef :: "nat option"
  welcomePlayedRef :: bool
  analyserAttachedRef :: bool
  wsStatus :: jsstring
  effectDeps :: "(bool \<times> bool) option"
  \<comment> \<open>the browser\<close>
  sockets :: "ready_state list"
  timers :: "timer list"
  sent :: "(nat \<times> json) list"
  console :: "log list"
  location :: "route list"
  JSON_parse :: "jsstring \<Rightarrow> json option"
  js_plus :: "json \<Rightarrow> json \<Rightarrow> json"

text \<open>Reading a table where the position may be out of range.\<close>

definition lookup :: "'a list \<Rightarrow> nat \<Rightarrow> 'a option" where
  "lookup xs i = (if i < length xs then Some (xs ! i) else None)"

subsection \<open>Timers\<close>

definition setTimeout :: "callback \<Rightarrow> nat \<Rightarrow> world \<Rightarrow> nat \<times> world" where
  "setTimeout cb ms w = (length (timers w), w\<lparr>timers := timers w @ [(ms, cb, True)]\<rparr>)"

fun cancel :: "nat \<Rightarrow> timer list \<Rightarrow> timer list" where
  "cancel i [] = []"
| "cancel 0 ((ms, cb, a) # ts) = (ms, cb, False) # ts"
| "cancel (Suc i) (t # ts) = t # cancel i ts"

definition clearTimeout :: "nat \<Rightarrow> world \<Rightarrow> world" where
  "clearTimeout i w = w\<lparr>timers := cancel i (timers w)\<rparr>"

subsection \<open>The voice store\<close>

definition setState :: "voice_state \<Rightarrow> world \<Rightarrow> world" where
  "setState v w = w\<lparr>state := v\<rparr>"

definition setAudioLevel :: "rat option \<Rightarrow> world \<Rightarrow> world" where
  "setAudioLevel l w = w\<lparr>audioLevel := l\<rparr>"

definition setError :: "jsstring option \<Rightarrow> world \<Rightarrow> world" where
  "setError e w = w\<lparr>error := e\<rparr>"

subsection \<open>use-text-to-speech\<close>

text \<open>
  The browser is taken to provide \<open>speechSynthesis\<close>. \<open>speak\<close> hands the utterance to
  it; the events of the utterance (start, end, error) are not among the events below.
\<close>

definition speak :: "json \<Rightarrow> world \<Rightarrow> world" where
  "speak text w = (setState Speaking w)\<lparr>spoken := spoken w @ [text]\<rparr>"

definition stopSpeech :: "world \<Rightarrow> world" where
  "stopSpeech w = setState Idle (setAudioLevel (Some 0) (w\<lparr>intervalRef := False\<rparr>))"

subsection \<open>use-speech-recognition\<close>

definition startListening :: "world \<Rightarrow> world" where
  "startListening w =
     (if \<not> recognitionRef w \<or> isListeningRef w then w
      else w\<lparr>transcript := [], interimTranscript := []\<rparr>)"

definition stopListening :: "world \<Rightarrow> world" where
  "stopListening w =
     (if \<not> recognitionRef w \<or> \<not> isListeningRef w then w
      else w\<lparr>isListeningRef := False\<rparr>)"

definition clearTranscript :: "world \<Rightarrow> world" where
  "clearTranscript w = w\<lparr>transcript := [], interimTranscript := []\<rparr>"

definition recognition_onstart :: "world \<Rightarrow> world" where
  "recognition_onstart w = w\<lparr>isListeningRef := True\<rparr>"

definition recognition_onresult :: "jsstring \<Rightarrow> jsstring \<Rightarrow> world \<Rightarrow> world" where
  "recognition_onresult finalTranscript interim w =
     (let w1 = (if finalTranscript \<noteq> []
                then w\<lparr>transcript := transcript w @ lit '' '' @ finalTranscript\<rparr> else w)
      in if interim \<noteq> [] then w1\<lparr>interimTranscript := interim\<rparr> else w1)"

definition recognition_onend :: "world \<Rightarrow> world" where
  "recognition_onend w = w\<lparr>isListeningRef := False\<rparr>"

subsection \<open>use-silence-detection\<close>

definition attachAnalyser :: "world \<Rightarrow> world" where
  "attachAnalyser w = w\<lparr>rafRef := True\<rparr>"

definition detachSilence :: "world \<Rightarrow> world" where
  "detachSilence w = w\<lparr>rafRef := False\<rparr>"

subsection \<open>The session page: thinking timer and turn submission\<close>

definition THINKING_SLOW_THRESHOLD_MS :: nat where
  "THINKING_SLOW_THRESHOLD_MS = 4000"

definition startThinkingTimer :: "world \<Rightarrow> world" where
  "startThinkingTimer w =
     (let w1 = w\<lparr>isThinking := True, isThinkingSlow := False\<rparr>;
          (t, w2) = setTimeout CbThinkingSlow THINKING_SLOW_THRESHOLD_MS w1
      in w2\<lparr>thinkingTimerRef := Some t\<rparr>)"

definition clearThinkingTimer :: "world \<Rightarrow> world" where
  "clearThinkingTimer w =
     (let w1 = w\<lparr>isThinking := False, isThinkingSlow := False\<rparr>
      in case thinkingTimerRef w1 of
           Some t \<Rightarrow> (clearTimeout t w1)\<lparr>thinkingTimerRef := None\<rparr>
         | None \<Rightarrow> w1)"

definition fallbackPhrase :: jsstring where
  "fallbackPhrase = lit ''I understand your point and would like to respond...''"

text \<open>The object that \<open>sendTranscript\<close> serialises and sends.\<close>

definition user_audio_transcript :: "jsstring \<Rightarrow> json" where
  "user_audio_transcript text =
     JObj [(lit ''type'', JStr (lit ''user_audio_transcript'')), (lit ''text'', JStr text)]"

definition socketOpen :: "world \<Rightarrow> nat option" where
  "socketOpen w =
     (case wsRef w of
        None \<Rightarrow> None
      | Some i \<Rightarrow> if lookup (sockets w) i = Some OPEN then Some i else None)"

definition sendTranscript :: "world \<Rightarrow> world" where
  "sendTranscript w =
     (case socketOpen w of
        Some i \<Rightarrow>
          (let text = (if trim (transcriptRef w) \<noteq> [] then trim (transcriptRef w)
                       else fallbackPhrase);
               w1 = w\<lparr>sent := sent w @ [(i, user_audio_transcript text)]\<rparr>
           in startThinkingTimer (clearTranscript w1))
      | None \<Rightarrow> w)"

text \<open>What follows \<open>await stopRecording()\<close> in the turn handlers of the voice page.\<close>

definition turn_continuation :: "world \<Rightarrow> world" where
  "turn_continuation w = sendTranscript (stopListening w)"

text \<open>
  The camera page sends the transcript inline, at the end of its \<open>handleHoldEnd\<close>;
  in demo mode (no current session) it only clears the transcript.
\<close>

definition cam_turn_continuation :: "world \<Rightarrow> world" where
  "cam_turn_continuation w =
     (let w1 = stopListening w
      in if \<not> truthy (currentSession w1) then clearTranscript w1
         else case socketOpen w1 of
                Some i \<Rightarrow>
                  (let text = (if trim (transcriptRef w1) \<noteq> [] then trim (transcriptRef w1)
                               else fallbackPhrase)
                   in clearTranscript
                        (w1\<lparr>sent := sent w1 @ [(i, user_audio_transcript text)]\<rparr>))
              | None \<Rightarrow> w1)"

subsection \<open>use-audio-recorder\<close>

definition resetState :: "world \<Rightarrow> world" where
  "resetState w = setState Idle (setAudioLevel (Some 0) w)"

text \<open>
  One run of the level loop. The average of an empty array is \<open>NaN\<close>, written \<open>None\<close>;
  the analyser has 128 bins (\<open>fftSize = 256\<close>).
\<close>

definition analyzeLoop :: "nat list \<Rightarrow> world \<Rightarrow> world" where
  "analyzeLoop dataArray w =
     (if \<not> analyserRef w then w
      else let normalized =
                 (if dataArray = [] then None
                  else Some (min (of_nat (sum_list dataArray) / of_nat (length dataArray) / 128) 1))
           in (setAudioLevel normalized w)\<lparr>animationFrameRef := True\<rparr>)"

text \<open>
  The body of the outer \<open>try\<close> of \<open>startRecording\<close>: \<open>Inl\<close> is an exception that reaches
  the outer \<open>catch\<close>, with the state at that point; \<open>Inr\<close> is a \<open>return\<close>.
\<close>

definition startRecording_try :: "media \<Rightarrow> world \<Rightarrow> (exn \<times> world) + (bool \<times> world)" where
  "startRecording_try m w =
     (let w1 = (case audioContextRef w of
                  Some c \<Rightarrow> w\<lparr>audioContextRef := Some False\<rparr>
                | None \<Rightarrow> w)
      in case getUserMedia m of
        Some e \<Rightarrow> Inl (e, w1)
      | None \<Rightarrow>
       (let w2 = w1\<lparr>streamRef := Some True\<rparr>
        in case newAudioContext m of
          Some e \<Rightarrow>
            Inr (False, resetState (w2\<lparr>console := console w2 @ [AudioContextFailed e]\<rparr>))
        | None \<Rightarrow>
         (let w3 = w2\<lparr>audioContextRef := Some True\<rparr>
          in case createAnalyser m of
            Some e \<Rightarrow> Inl (e, w3)
          | None \<Rightarrow>
           (let w4 = analyzeLoop (frequencyData m) (w3\<lparr>analyserRef := True\<rparr>)
            in case newMediaRecorder m of
              Some e \<Rightarrow> Inl (e, w4)
            | None \<Rightarrow>
             (let r = length (recorders w4);
                  w5 = w4\<lparr>audioChunksRef := [],
                         recorders := recorders w4 @ [(Inactive, None)],
                         mediaRecorderRef := Some r\<rparr>
              in case recorderStart m of
                Some e \<Rightarrow> Inl (e, w5)
              | None \<Rightarrow>
                  Inr (True, setState Listening
                    (w5\<lparr>recorders := list_update (recorders w5) r (Recording, None)\<rparr>)))))))"

text \<open>
  \<open>startRecording\<close>: the result is what the caller gets, \<open>Inr b\<close> for the boolean the
  promise resolves with, \<open>Inl e\<close> for a rejection.
\<close>

definition startRecording :: "media \<Rightarrow> world \<Rightarrow> (exn + bool) \<times> world" where
  "startRecording m w =
     (case startRecording_try m w of
        Inl (e, w') \<Rightarrow> (Inr False, resetState (w'\<lparr>console := console w' @ [StartFailed e]\<rparr>))
      | Inr (b, w') \<Rightarrow> (Inr b, w'))"

definition STOP_TIMEOUT_MS :: nat where
  "STOP_TIMEOUT_MS = 5000"

text \<open>
  \<open>stopRecording\<close> returns a new promise, here its position in the table of promises.
  Stopping a recorder makes it inactive at once; its stop event comes later.
\<close>

definition mediaRecorder :: "world \<Rightarrow> (nat \<times> recorder_state) option" where
  "mediaRecorder w =
     (case mediaRecorderRef w of
        None \<Rightarrow> None
      | Some r \<Rightarrow> (case lookup (recorders w) r of
                    None \<Rightarrow> None
                  | Some (st, h) \<Rightarrow> Some (r, st)))"

definition stopRecording :: "world \<Rightarrow> nat \<times> world" where
  "stopRecording w =
     (let p = length (promises w)
      in case mediaRecorder w of
           None \<Rightarrow> (p, w\<lparr>promises := promises w @ [Resolved None]\<rparr>)
         | Some (r, st) \<Rightarrow>
             if st = Inactive then (p, w\<lparr>promises := promises w @ [Resolved None]\<rparr>)
             else
               (let (t, w1) = setTimeout (CbStopTimeout p) STOP_TIMEOUT_MS
                                (w\<lparr>promises := promises w @ [Pending False]\<rparr>);
                    w2 = w1\<lparr>recorders := list_update (recorders w1) r (Inactive, Some (t, p))\<rparr>;
                    w3 = (case streamRef w2 of
                            Some l \<Rightarrow> w2\<lparr>streamRef := Some False\<rparr>
                          | None \<Rightarrow> w2);
                    w4 = (if animationFrameRef w3 then w3\<lparr>animationFrameRef := False\<rparr> else w3)
                in (p, resetState w4)))"

text \<open>
  Resolving a promise: only a pending promise changes; a turn that waits on it goes on
  right away (the resolution is the last statement of the callbacks that resolve).
\<close>

definition resolve :: "nat \<Rightarrow> clip option \<Rightarrow> world \<Rightarrow> world" where
  "resolve p v w =
     (case lookup (promises w) p of
        Some (Pending waiting) \<Rightarrow>
          (let w1 = w\<lparr>promises := list_update (promises w) p (Resolved v)\<rparr>
           in if waiting then turn_continuation w1 else w1)
      | _ \<Rightarrow> w)"

definition recorder_onstop :: "nat \<Rightarrow> world \<Rightarrow> world" where
  "recorder_onstop r w =
     (case lookup (recorders w) r of
        Some (st, Some (t, p)) \<Rightarrow>
          (let w1 = clearTimeout t w;
               audioBlob = (if audioChunksRef w1 \<noteq> [] then Some (audioChunksRef w1) else None)
           in resolve p audioBlob w1)
      | _ \<Rightarrow> w)"

definition recorder_ondataavailable :: "nat \<Rightarrow> world \<Rightarrow> world" where
  "recorder_ondataavailable sz w =
     (if sz > 0 then w\<lparr>audioChunksRef := audioChunksRef w @ [sz]\<rparr> else w)"

subsection \<open>The session socket\<close>

definition WS_RECONNECT_BASE_MS :: nat where
  "WS_RECONNECT_BASE_MS = 1000"

definition WS_RECONNECT_MAX_MS :: nat where
  "WS_RECONNECT_MAX_MS = 16000"

definition WS_MAX_RETRIES :: nat where
  "WS_MAX_RETRIES = 5"

text \<open>\<open>validateString(value, fieldName, true)\<close> of the API module, with no maximal length.\<close>

definition validateString :: "json \<Rightarrow> jsstring \<Rightarrow> exn option" where
  "validateString v fieldName =
     (if v = JUndefined \<or> v = JNull \<or> v = JStr [] then
        Some (ValidationError (fieldName @ lit '' is required''))
      else case v of
             JStr x \<Rightarrow> None
           | _ \<Rightarrow> Some (ValidationError (fieldName @ lit '' must be a string'')))"

text \<open>
  \<open>createVoiceWebSocket\<close>: a new socket starts in state \<open>CONNECTING\<close>. The text of the
  URL is not modelled, only whether building it throws.
\<close>

definition createVoiceWebSocket :: "json \<Rightarrow> world \<Rightarrow> exn + (nat \<times> world)" where
  "createVoiceWebSocket sessionId w =
     (case validateString sessionId (lit ''session_id'') of
        Some e \<Rightarrow> Inl e
      | None \<Rightarrow>
         (case sessionId of
            JStr x \<Rightarrow>
              if wellFormed x
              then Inr (length (sockets w), w\<lparr>sockets := sockets w @ [CONNECTING]\<rparr>)
              else Inl URIError
          | _ \<Rightarrow> Inl TypeError))"

text \<open>\<open>ws.close()\<close>: a socket that is connecting or open starts closing.\<close>

definition closeSocket :: "nat \<Rightarrow> world \<Rightarrow> world" where
  "closeSocket i w =
     (case lookup (sockets w) i of
        Some CONNECTING \<Rightarrow> w\<lparr>sockets := list_update (sockets w) i CLOSING\<rparr>
      | Some OPEN \<Rightarrow> w\<lparr>sockets := list_update (sockets w) i CLOSING\<rparr>
      | _ \<Rightarrow> w)"

text \<open>
  \<open>connectWs\<close>: \<open>Inl\<close> is an exception that leaves the function, with the state at that
  point. The handlers it installs on the new socket are the four functions after it.
\<close>

definition connectWs :: "world \<Rightarrow> (exn \<times> world) + world" where
  "connectWs w =
     (if \<not> truthy (currentSession w) then Inr w
      else let w1 = (case wsRef w of Some i \<Rightarrow> closeSocket i w | None \<Rightarrow> w)
           in case createVoiceWebSocket (member (currentSession w1) (lit ''session_id'')) w1 of
                Inl e \<Rightarrow> Inl (e, w1)
              | Inr (i, w2) \<Rightarrow> Inr (w2\<lparr>wsRef := Some i\<rparr>))"

definition uncaught :: "(exn \<times> world) + world \<Rightarrow> world" where
  "uncaught r = (case r of
                   Inl (e, w) \<Rightarrow> w\<lparr>console := console w @ [Uncaught e]\<rparr>
                 | Inr w \<Rightarrow> w)"

definition ws_onopen :: "world \<Rightarrow> world" where
  "ws_onopen w =
     setError None (w\<lparr>reconnectCountRef := 0, wsStatus := lit ''connected''\<rparr>)"

definition welcomeDefault :: jsstring where
  "welcomeDefault = lit ''Let's begin.''"

definition ws_onmessage :: "jsstring \<Rightarrow> world \<Rightarrow> world" where
  "ws_onmessage payload w =
     (case JSON_parse w payload of
        None \<Rightarrow> w\<lparr>console := console w @ [ParseFailed]\<rparr>
      | Some data \<Rightarrow>
          if data = JNull \<or> data = JUndefined then
            w\<lparr>console := console w @ [Uncaught TypeError]\<rparr>
          else if member data (lit ''type'') = JStr (lit ''welcome'') then
            (let msg = js_or (member data (lit ''message''))
                         (js_or (opt_prop (member data (lit ''scenario'')) (lit ''opening''))
                            (JStr welcomeDefault));
                 w1 = clearThinkingTimer (w\<lparr>aiQuestion := msg\<rparr>)
             in if \<not> welcomePlayedRef w1 then speak msg (w1\<lparr>welcomePlayedRef := True\<rparr>)
                else w1)
          else if member data (lit ''type'') = JStr (lit ''ai_response'') then
            (let w1 = (clearThinkingTimer w)\<lparr>aiQuestion := member data (lit ''text'')\<rparr>;
                 analysis = member data (lit ''analysis'');
                 w2 = (if truthy analysis then
                         (let len = opt_prop (member analysis (lit ''filler_words'')) (lit ''length'');
                              wa = (if truthy len then
                                      snd (setTimeout CbFillerFlashOff 600
                                        (w1\<lparr>fillerCount := js_plus w1 (fillerCount w1) len,
                                            fillerFlash := True\<rparr>))
                                    else w1)
                          in case member analysis (lit ''clarity_score'') of
                               JNum x \<Rightarrow> wa\<lparr>wpm := JNum (x * 2)\<rparr>
                             | _ \<Rightarrow> wa)
                       else w1)
             in speak (member data (lit ''text'')) (setState Processing w2))
          else if member data (lit ''type'') = JStr (lit ''session_ended'') then
            w\<lparr>location := location w @ [Feedback (member (currentSession w) (lit ''session_id''))]\<rparr>
          else w)"

definition ws_onerror :: "world \<Rightarrow> world" where
  "ws_onerror w = setError (Some (lit ''Connection error'')) w"

definition ws_onclose :: "nat \<Rightarrow> world \<Rightarrow> world" where
  "ws_onclose code w =
     (if code = 1000 then w
      else if reconnectCountRef w < WS_MAX_RETRIES then
        (let delay = min (WS_RECONNECT_BASE_MS * 2 ^ reconnectCountRef w) WS_RECONNECT_MAX_MS;
             w1 = w\<lparr>wsStatus := lit ''reconnecting'',
                    reconnectCountRef := reconnectCountRef w + 1\<rparr>;
             (t, w2) = setTimeout CbConnectWs delay w1
         in w2\<lparr>reconnectTimerRef := Some t\<rparr>)
      else setError (Some (lit ''Connection lost. Please refresh to retry.''))
             (w\<lparr>wsStatus := lit ''failed''\<rparr>))"

subsection \<open>The connect effect of the voice page\<close>

text \<open>
  The effect that connects has the dependencies \<open>currentSession\<close>, \<open>connectWs\<close>,
  \<open>isHolding\<close>, \<open>isRecording\<close>, \<open>stopSpeech\<close> and \<open>clearThinkingTimer\<close>. It runs again
  when one of them changed between two renders: first its cleanup, then its body. For
  \<open>isHolding\<close> and \<open>isRecording\<close> the render sees the change: \<open>effectDeps\<close> holds their
  values at the last run, and is \<open>None\<close> while the view is not mounted. A change of
  identity of one of the callbacks is an event of its own (\<open>EffectRerun\<close> below); the
  session stays the same during a mount.
\<close>

definition effect_cleanup :: "world \<Rightarrow> world" where
  "effect_cleanup w =
     (let w1 = (case reconnectTimerRef w of Some t \<Rightarrow> clearTimeout t w | None \<Rightarrow> w);
          w2 = (case wsRef w1 of Some i \<Rightarrow> closeSocket i w1 | None \<Rightarrow> w1);
          w3 = w2\<lparr>welcomePlayedRef := False\<rparr>
      in clearThinkingTimer (stopSpeech w3))"

definition effect_run :: "world \<Rightarrow> world" where
  "effect_run w =
     (if \<not> truthy (currentSession w) then w
      else uncaught (connectWs w))\<lparr>effectDeps := Some (isHolding w, isRecording w)\<rparr>"

definition effect_rerun :: "world \<Rightarrow> world" where
  "effect_rerun w = effect_run (if truthy (currentSession w) then effect_cleanup w else w)"

definition demoQuestion :: jsstring where
  "demoQuestion =
     lit ''Tell me about a time you led a challenging project. What was the outcome?''"

text \<open>The effects that keep \<open>transcriptRef\<close> and the demo question up to date.\<close>

definition small_effects :: "world \<Rightarrow> world" where
  "small_effects w =
     (let w1 = (if \<not> truthy (currentSession w) \<and> \<not> truthy (aiQuestion w)
                then w\<lparr>aiQuestion := JStr demoQuestion\<rparr> else w)
      in w1\<lparr>transcriptRef := transcript w1\<rparr>)"

definition mount :: "world \<Rightarrow> world" where
  "mount w = effect_run (small_effects w)"

definition render :: "world \<Rightarrow> world" where
  "render w =
     (let w1 = small_effects w
      in case effectDeps w1 of
           None \<Rightarrow> w1
         | Some d \<Rightarrow>
             if d = (isHolding w1, isRecording w1) then w1 else effect_rerun w1)"

text \<open>Unmounting runs the cleanup of the connect effect and those of the hooks.\<close>

definition unmount :: "world \<Rightarrow> world" where
  "unmount w =
     (case effectDeps w of
        None \<Rightarrow> w
      | Some d \<Rightarrow>
         (let w1 = (if truthy (currentSession w) then effect_cleanup w else w);
              w2 = w1\<lparr>intervalRef := False, animationFrameRef := False\<rparr>;
              w3 = (case streamRef w2 of
                      Some l \<Rightarrow> w2\<lparr>streamRef := Some False\<rparr>
                    | None \<Rightarrow> w2);
              w4 = (case audioContextRef w3 of
                      Some c \<Rightarrow> w3\<lparr>audioContextRef := Some False\<rparr>
                    | None \<Rightarrow> w3)
          in w4\<lparr>effectDeps := None\<rparr>))"

subsection \<open>The turn handlers of the voice page\<close>

text \<open>
  An asynchronous handler is cut at its \<open>await\<close>: the part before it runs at once, the
  view renders (the state update was queued first), then the rest runs. The first
  statements of \<open>startRecording\<close>, which only close the old audio context, are run with
  the rest of it: they touch nothing that the render reads or writes.
\<close>

definition handleHoldStart_begin :: "world \<Rightarrow> world" where
  "handleHoldStart_begin w =
     setState Listening (clearThinkingTimer (stopSpeech (w\<lparr>isHolding := True\<rparr>)))"

definition turnStart_resume :: "media \<Rightarrow> world \<Rightarrow> world" where
  "turnStart_resume m w =
     (let w1 = startListening (snd (startRecording m w))
      in if analyserRef w1 \<and> \<not> analyserAttachedRef w1
         then attachAnalyser (w1\<lparr>analyserAttachedRef := True\<rparr>)
         else w1)"

definition handleHoldStart :: "media \<Rightarrow> world \<Rightarrow> world" where
  "handleHoldStart m w = turnStart_resume m (render (handleHoldStart_begin w))"

text \<open>The part of \<open>handleHoldEnd\<close> before \<open>stopRecording\<close> is called.\<close>

definition handleHoldEnd_begin :: "world \<Rightarrow> world" where
  "handleHoldEnd_begin w =
     setState Processing ((detachSilence (w\<lparr>isHolding := False\<rparr>))\<lparr>analyserAttachedRef := False\<rparr>)"

text \<open>
  \<open>await p\<close> for the promise of \<open>stopRecording\<close>: the turn goes on at once when the promise
  is resolved already, and waits for the resolution otherwise.
\<close>

definition await_turn :: "nat \<Rightarrow> world \<Rightarrow> world" where
  "await_turn p w =
     (case lookup (promises w) p of
        Some (Pending waiting) \<Rightarrow> w\<lparr>promises := list_update (promises w) p (Pending True)\<rparr>
      | _ \<Rightarrow> turn_continuation w)"

definition handleHoldEnd :: "world \<Rightarrow> world" where
  "handleHoldEnd w =
     (if \<not> isHolding w then w
      else let (p, w1) = stopRecording (handleHoldEnd_begin w)
           in await_turn p (render w1))"

definition handlePushToggle :: "media \<Rightarrow> world \<Rightarrow> world" where
  "handlePushToggle m w =
     (if \<not> isRecording w then
        turnStart_resume m
          (render (setState Listening (clearThinkingTimer (stopSpeech (w\<lparr>isRecording := True\<rparr>)))))
      else
        (let w1 = setState Processing
                    ((detachSilence (w\<lparr>isRecording := False\<rparr>))\<lparr>analyserAttachedRef := False\<rparr>);
             (p, w2) = stopRecording w1
         in await_turn p (render w2)))"

subsection \<open>Events\<close>

text \<open>
  What can happen to a mounted view: the events of a socket (named by its position in
  the table of sockets), a timer that fires, the user's gestures, the events of a
  recorder and of the speech recognition, a render after which the connect effect runs
  again because a callback among its dependencies changed, and the unmount.
\<close>

datatype event =
    SocketOpen nat
  | SocketMessage nat jsstring
  | SocketError nat
  | SocketClose nat nat
  | TimerFired nat
  | RetryClick
  | HoldStart media
  | HoldEnd
  | PushToggle media
  | RecorderStop nat
  | DataAvailable nat
  | RecognitionStart
  | RecognitionResult jsstring jsstring
  | RecognitionEnd
  | EffectRerun
  | Unmount

fun run_callback :: "callback \<Rightarrow> world \<Rightarrow> world" where
  "run_callback CbConnectWs w = uncaught (connectWs w)"
| "run_callback CbThinkingSlow w = w\<lparr>isThinkingSlow := True\<rparr>"
| "run_callback CbFillerFlashOff w = w\<lparr>fillerFlash := False\<rparr>"
| "run_callback (CbStopTimeout p) w = resolve p None w"

definition fire :: "nat \<Rightarrow> world \<Rightarrow> world" where
  "fire t w =
     (case lookup (timers w) t of
        Some (ms, cb, True) \<Rightarrow> run_callback cb (clearTimeout t w)
      | _ \<Rightarrow> w)"

fun handle :: "event \<Rightarrow> world \<Rightarrow> world" where
  "handle (SocketOpen i) w = ws_onopen (w\<lparr>sockets := list_update (sockets w) i OPEN\<rparr>)"
| "handle (SocketMessage i payload) w = ws_onmessage payload w"
| "handle (SocketError i) w = ws_onerror w"
| "handle (SocketClose i code) w =
     ws_onclose code (w\<lparr>sockets := list_update (sockets w) i CLOSED\<rparr>)"
| "handle (TimerFired t) w = fire t w"
| "handle RetryClick w = uncaught (connectWs w)"
| "handle (HoldStart m) w = handleHoldStart m w"
| "handle HoldEnd w = handleHoldEnd w"
| "handle (PushToggle m) w = handlePushToggle m w"
| "handle (RecorderStop r) w = recorder_onstop r w"
| "handle (DataAvailable sz) w = recorder_ondataavailable sz w"
| "handle RecognitionStart w = recognition_onstart w"
| "handle (RecognitionResult finalTranscript interim) w =
     recognition_onresult finalTranscript interim w"
| "handle RecognitionEnd w = recognition_onend w"
| "handle EffectRerun w = (case effectDeps w of None \<Rightarrow> w | Some d \<Rightarrow> effect_rerun w)"
| "handle Unmount w = unmount w"

text \<open>After each event the view renders.\<close>

definition step :: "event \<Rightarrow> world \<Rightarrow> world" where
  "step e w = render (handle e w)"

fun run :: "event list \<Rightarrow> world \<Rightarrow> world" where
  "run [] w = w"
| "run (e # es) w = run es (step e w)"

text \<open>
  The state of a view before it mounts, for a current session, a browser with or without
  speech recognition, and the two built-ins.
\<close>

definition initial ::
  "json \<Rightarrow> bool \<Rightarrow> (jsstring \<Rightarrow> json option) \<Rightarrow> (json \<Rightarrow> json \<Rightarrow> json) \<Rightarrow> world" where
  "initial session recognition parse add =
     \<lparr>state = Idle, audioLevel = Some 0, error = None,
      currentSession = session, fillerCount = JNum 0, wpm = JNum 0,
      mediaRecorderRef = None, recorders = [], audioChunksRef = [], analyserRef = False,
      animationFrameRef = False, streamRef = None, audioContextRef = None, promises = [],
      intervalRef = False, spoken = [],
      transcript = [], interimTranscript = [], recognitionRef = recognition,
      isListeningRef = False,
      rafRef = False,
      transcriptRef = [], aiQuestion = JStr [], isHolding = False, isRecording = False,
      fillerFlash = False, isThinking = False, isThinkingSlow = False,
      thinkingTimerRef = None, wsRef = None, reconnectCountRef = 0,
      reconnectTimerRef = None, welcomePlayedRef = False, analyserAttachedRef = False,
      wsStatus = lit ''idle'', effectDeps = None,
      sockets = [], timers = [], sent = [], console = [], location = [],
      JSON_parse = parse, js_plus = add\<rparr>"

subsection \<open>Observing the connection\<close>

text \<open>
  The delays of the reconnects scheduled so far, in the order of the calls to
  \<open>setTimeout\<close>; the part of the state that the reconnection protocol owns; the close
  events with a code other than 1000; and the open events.
\<close>

definition reconnectDelays :: "world \<Rightarrow> nat list" where
  "reconnectDelays w = map fst (filter (\<lambda>t. fst (snd t) = CbConnectWs) (timers w))"

definition connection :: "world \<Rightarrow> nat \<times> jsstring \<times> nat list" where
  "connection w = (reconnectCountRef w, wsStatus w, reconnectDelays w)"

fun abnormalClose :: "event \<Rightarrow> bool" where
  "abnormalClose (SocketClose i code) = (code \<noteq> 1000)"
| "abnormalClose e = False"

fun isOpen :: "event \<Rightarrow> bool" where
  "isOpen (SocketOpen i) = True"
| "isOpen e = False"

subsection \<open>Timers, promises and recorders that belong together\<close>

text \<open>
  The invariant behind the timeout of \<open>stopRecording\<close>: the timer that
  \<open>thinkingTimerRef\<close> names is a thinking timer, the one that \<open>reconnectTimerRef\<close> names is
  a reconnect timer, the timer in the \<open>onstop\<close> handler of a recorder is the stop
  timeout of the promise in that handler, and every pending promise has its stop
  timeout pending in the table of timers.
\<close>

definition timerHas :: "timer list \<Rightarrow> nat \<Rightarrow> callback \<Rightarrow> bool" where
  "timerHas ts t cb = (case lookup ts t of Some (ms, c, a) \<Rightarrow> c = cb | None \<Rightarrow> False)"

definition consistentT ::
  "timer list \<Rightarrow> promise list \<Rightarrow> recorder list \<Rightarrow> nat option \<Rightarrow> nat option \<Rightarrow> bool" where
  "consistentT ts ps rs th rc \<longleftrightarrow>
     (\<forall>t. th = Some t \<longrightarrow> timerHas ts t CbThinkingSlow) \<and>
     (\<forall>t. rc = Some t \<longrightarrow> timerHas ts t CbConnectWs) \<and>
     (\<forall>st t p. (st, Some (t, p)) \<in> set rs \<longrightarrow> timerHas ts t (CbStopTimeout p)) \<and>
     (\<forall>p b. lookup ps p = Some (Pending b) \<longrightarrow>
            (STOP_TIMEOUT_MS, CbStopTimeout p, True) \<in> set ts)"

definition tables ::
  "world \<Rightarrow> timer list \<times> promise list \<times> recorder list \<times> nat option \<times> nat option" where
  "tables w = (timers w, promises w, recorders w, thinkingTimerRef w, reconnectTimerRef w)"

definition consistent :: "world \<Rightarrow> bool" where
  "consistent w =
     consistentT (timers w) (promises w) (recorders w) (thinkingTimerRef w) (reconnectTimerRef w)"

section \<open>An example session\<close>

text \<open>
  A session with the identifier \<open>abc123\<close>, a parser that knows two welcome frames and
  rejects every other payload, addition on numbers, and a browser in which every step of
  starting a capture succeeds. \<open>example_world\<close> is the view right after it mounted.
\<close>

definition example_session :: json where
  "example_session = JObj [(lit ''session_id'', JStr (lit ''abc123''))]"

definition example_parse :: "jsstring \<Rightarrow> json option" where
  "example_parse payload =
     (if payload = lit ''welcome frame with message'' then
        Some (JObj [(lit ''type'', JStr (lit ''welcome'')), (lit ''message'', JStr (lit ''Hi''))])
      else if payload = lit ''welcome frame without message'' then
        Some (JObj [(lit ''type'', JStr (lit ''welcome''))])
      else None)"

definition example_plus :: "json \<Rightarrow> json \<Rightarrow> json" where
  "example_plus a b = (case (a, b) of (JNum x, JNum y) \<Rightarrow> JNum (x + y) | _ \<Rightarrow> JUndefined)"

definition example_media :: media where
  "example_media = \<lparr>getUserMedia = None, newAudioContext = None, createAnalyser = None,
     frequencyData = replicate 128 0, newMediaRecorder = None, recorderStart = None\<rparr>"

definition example_world :: world where
  "example_world = mount (initial example_session True example_parse example_plus)"


text \<open>
  Three runs of the example: every connection attempt fails, six closes in a row; a
  turn in which the user says ``hello'' while the socket is still connecting; and a
  welcome frame before and after the user starts to hold.
\<close>

definition six_failed_connections :: "event list" where
  "six_failed_connections =
     [SocketClose 0 1006, TimerFired 0, SocketClose 1 1006, TimerFired 1,
      SocketClose 2 1006, TimerFired 2, SocketClose 3 1006, TimerFired 3,
      SocketClose 4 1006, TimerFired 4, SocketClose 5 1006]"

definition silent_turn :: "event list" where
  "silent_turn =
     [HoldStart example_media, RecognitionStart, RecognitionResult (lit ''hello'') [], HoldEnd]"


section \<open>Properties\<close>

subsection \<open>Unfolding the model\<close>

lemmas model_defs = lookup_def setTimeout_def clearTimeout_def setState_def setAudioLevel_def setError_def
  speak_def stopSpeech_def startListening_def stopListening_def clearTranscript_def recognition_onstart_def
  recognition_onresult_def recognition_onend_def attachAnalyser_def detachSilence_def
  THINKING_SLOW_THRESHOLD_MS_def startThinkingTimer_def clearThinkingTimer_def fallbackPhrase_def
  user_audio_transcript_def socketOpen_def sendTranscript_def turn_continuation_def resetState_def
  analyzeLoop_def startRecording_try_def startRecording_def mediaRecorder_def STOP_TIMEOUT_MS_def
  stopRecording_def resolve_def recorder_onstop_def recorder_ondataavailable_def
  WS_RECONNECT_BASE_MS_def WS_RECONNECT_MAX_MS_def WS_MAX_RETRIES_def validateString_def
  createVoiceWebSocket_def closeSocket_def connectWs_def uncaught_def ws_onopen_def welcomeDefault_def
  ws_onmessage_def ws_onerror_def ws_onclose_def effect_cleanup_def effect_run_def
  effect_rerun_def small_effects_def
  mount_def render_def unmount_def handleHoldStart_begin_def turnStart_resume_def handleHoldStart_def
  handleHoldEnd_begin_def await_turn_def handleHoldEnd_def handlePushToggle_def fire_def step_def
  opt_prop_def js_or_def trim_def isWhiteSpace_def


text \<open>Positions given as numerals.\<close>

lemma cancel_numeral [simp]: "cancel (numeral v) (t # ts) = t # cancel (numeral v - 1) ts"
  by (simp add: numeral_eq_Suc)

lemma list_update_numeral [simp]:
  "list_update (x # xs) (numeral v) y = x # list_update xs (numeral v - 1) y"
  by (simp add: numeral_eq_Suc)

lemma example_world_eq:
  "example_world =
     (initial example_session True example_parse example_plus)
       \<lparr>sockets := [CONNECTING], wsRef := Some 0, effectDeps := Some (False, False)\<rparr>"
  by (simp add: example_world_def mount_def effect_run_def small_effects_def initial_def connectWs_def createVoiceWebSocket_def validateString_def example_session_def uncaught_def closeSocket_def Let_def)

lemmas example_defs = example_world_eq initial_def example_parse_def example_session_def
  example_media_def example_plus_def

subsection \<open>Inbound frames\<close>

text \<open>
  Claim C7. For every inbound frame whose payload fails to parse as JSON, the message
  handler logs the failure and returns: the new state is the old one with one more
  console entry, so the voice state, the connection status, the transcript and the
  metrics are unchanged.
\<close>

theorem malformed_payload_dropped:
  "JSON_parse w payload = None \<Longrightarrow>
   ws_onmessage payload w = w\<lparr>console := console w @ [ParseFailed]\<rparr>"
  by (simp add: ws_onmessage_def)

theorem malformed_payload_dropped_witness:
  "JSON_parse example_world (lit ''{oops'') = None \<and>
   ws_onmessage (lit ''{oops'') example_world
     = example_world\<lparr>console := console example_world @ [ParseFailed]\<rparr>"
proof -
  have h: "JSON_parse example_world (lit ''{oops'') = None"
    by (simp add: example_defs)
  from malformed_payload_dropped [OF h] h show ?thesis by blast
qed

subsection \<open>Close codes\<close>

text \<open>
  Claim C2. A close with the normal-closure code 1000 leaves the state as it is,
  whatever the retry counter: no timer is scheduled, the status and the counter stay.
  A close with any other code runs the backoff: below five retries it schedules a
  reconnect after \<open>min (1000 * 2 ^ n) 16000\<close> ms, counts it and sets the status to
  \<open>reconnecting\<close>; otherwise it sets the status to \<open>failed\<close>.
\<close>

theorem close_codes:
  "ws_onclose 1000 w = w \<and>
   handle (SocketClose i 1000) w = w\<lparr>sockets := list_update (sockets w) i CLOSED\<rparr> \<and>
   (code \<noteq> 1000 \<longrightarrow>
      ws_onclose code w =
        (if reconnectCountRef w < 5 then
           w\<lparr>wsStatus := lit ''reconnecting'',
              reconnectCountRef := reconnectCountRef w + 1,
              timers := timers w @ [(min (1000 * 2 ^ reconnectCountRef w) 16000, CbConnectWs, True)],
              reconnectTimerRef := Some (length (timers w))\<rparr>
         else w\<lparr>wsStatus := lit ''failed'',
                error := Some (lit ''Connection lost. Please refresh to retry.'')\<rparr>))"
  by (simp add: ws_onclose_def setTimeout_def setError_def WS_MAX_RETRIES_def
      WS_RECONNECT_BASE_MS_def WS_RECONNECT_MAX_MS_def)

theorem close_codes_witness:
  "(1006::nat) \<noteq> 1000 \<and>
   timers (ws_onclose 1006 example_world) = [(1000, CbConnectWs, True)] \<and>
   wsStatus (ws_onclose 1006 example_world) = lit ''reconnecting'' \<and>
   ws_onclose 1000 example_world = example_world"
  using close_codes [of example_world 0 1006]
  by (simp add: example_defs)

subsection \<open>The welcome frame\<close>

text \<open>
  Claim C10. For every welcome frame in which \<open>message\<close> and \<open>scenario.opening\<close> are both
  absent or falsy, the question shown is the literal \<open>Let's begin.\<close>, and that literal
  is what is handed to the speech playback when the welcome has not been played yet.
\<close>

theorem welcome_default:
  "JSON_parse w payload = Some data \<Longrightarrow>
   member data (lit ''type'') = JStr (lit ''welcome'') \<Longrightarrow>
   \<not> truthy (member data (lit ''message'')) \<Longrightarrow>
   \<not> truthy (opt_prop (member data (lit ''scenario'')) (lit ''opening'')) \<Longrightarrow>
   aiQuestion (ws_onmessage payload w) = JStr (lit ''Let's begin.'') \<and>
   spoken (ws_onmessage payload w) =
     (if welcomePlayedRef w then spoken w else spoken w @ [JStr (lit ''Let's begin.'')])"
  by (cases "data = JNull \<or> data = JUndefined")
     (auto simp add: ws_onmessage_def js_or_def Let_def clearThinkingTimer_def clearTimeout_def
       speak_def setState_def welcomeDefault_def split: option.splits)

theorem welcome_default_witness:
  "JSON_parse example_world (lit ''welcome frame without message'')
     = Some (JObj [(lit ''type'', JStr (lit ''welcome''))]) \<and>
   aiQuestion (ws_onmessage (lit ''welcome frame without message'') example_world)
     = JStr (lit ''Let's begin.'') \<and>
   spoken (ws_onmessage (lit ''welcome frame without message'') example_world)
     = [JStr (lit ''Let's begin.'')]"
  using welcome_default [of example_world "lit ''welcome frame without message''"
      "JObj [(lit ''type'', JStr (lit ''welcome''))]"]
  by (simp add: example_defs opt_prop_def)

subsection \<open>Submitting a turn\<close>

lemma trim_empty_iff: "trim s = [] \<longleftrightarrow> (\<forall>c\<in>set s. isWhiteSpace c)"
proof
  assume "trim s = []"
  then have a: "\<forall>c\<in>set (dropWhile isWhiteSpace s). isWhiteSpace c"
    by (simp add: trim_def dropWhile_eq_Nil_conv)
  have "dropWhile isWhiteSpace s = []"
  proof (rule ccontr)
    assume n: "dropWhile isWhiteSpace s \<noteq> []"
    then have "\<not> isWhiteSpace (hd (dropWhile isWhiteSpace s))" by (rule hd_dropWhile)
    moreover from n have "hd (dropWhile isWhiteSpace s) \<in> set (dropWhile isWhiteSpace s)"
      by (rule hd_in_set)
    ultimately show False using a by blast
  qed
  then show "\<forall>c\<in>set s. isWhiteSpace c" by (simp add: dropWhile_eq_Nil_conv)
next
  assume "\<forall>c\<in>set s. isWhiteSpace c"
  then show "trim s = []" by (auto simp add: trim_def dest: set_dropWhileD)
qed

lemma fallbackPhrase_nonempty: "fallbackPhrase \<noteq> []"
  by (simp add: fallbackPhrase_def)

lemma socketOpen_stopListening [simp]: "socketOpen (stopListening w) = socketOpen w"
  by (simp add: socketOpen_def stopListening_def split: option.splits)

text \<open>
  Claim C4. When a turn is submitted over an open socket, the message sent is a
  \<open>user_audio_transcript\<close> whose \<open>text\<close> is never empty: the fallback phrase when the
  transcript is empty or consists of white space only, the trimmed transcript
  otherwise. This holds for \<open>sendTranscript\<close> of the voice page and for the end of
  \<open>handleHoldEnd\<close> of the camera page.
\<close>

theorem transcript_text_nonempty:
  assumes "socketOpen w = Some i"
  shows "\<exists>text. text \<noteq> [] \<and>
           text = (if \<forall>c\<in>set (transcriptRef w). isWhiteSpace c then fallbackPhrase
                   else trim (transcriptRef w)) \<and>
           member (user_audio_transcript text) (lit ''text'') = JStr text \<and>
           sent (sendTranscript w) = sent w @ [(i, user_audio_transcript text)] \<and>
           (truthy (currentSession w) \<longrightarrow>
              sent (cam_turn_continuation w) = sent w @ [(i, user_audio_transcript text)])"
proof (cases "trim (transcriptRef w) = []")
  case True
  then have ws: "\<forall>c\<in>set (transcriptRef w). isWhiteSpace c" by (simp add: trim_empty_iff)
  have "sent (sendTranscript w) = sent w @ [(i, user_audio_transcript fallbackPhrase)]"
    using assms True
    by (simp add: sendTranscript_def Let_def startThinkingTimer_def setTimeout_def
        clearTranscript_def split_def)
  moreover have "truthy (currentSession w) \<longrightarrow>
      sent (cam_turn_continuation w) = sent w @ [(i, user_audio_transcript fallbackPhrase)]"
    using assms True
    by (simp add: cam_turn_continuation_def Let_def clearTranscript_def)
       (simp add: stopListening_def)
  moreover have "member (user_audio_transcript fallbackPhrase) (lit ''text'') = JStr fallbackPhrase"
    by (simp add: user_audio_transcript_def)
  ultimately show ?thesis using ws fallbackPhrase_nonempty by auto
next
  case False
  then have ws: "\<not> (\<forall>c\<in>set (transcriptRef w). isWhiteSpace c)" by (simp add: trim_empty_iff)
  have "sent (sendTranscript w) = sent w @ [(i, user_audio_transcript (trim (transcriptRef w)))]"
    using assms False
    by (simp add: sendTranscript_def Let_def startThinkingTimer_def setTimeout_def
        clearTranscript_def split_def)
  moreover have "truthy (currentSession w) \<longrightarrow>
      sent (cam_turn_continuation w) = sent w @ [(i, user_audio_transcript (trim (transcriptRef w)))]"
    using assms False
    by (simp add: cam_turn_continuation_def Let_def clearTranscript_def)
       (simp add: stopListening_def)
  moreover have "member (user_audio_transcript (trim (transcriptRef w))) (lit ''text'')
      = JStr (trim (transcriptRef w))"
    by (simp add: user_audio_transcript_def)
  ultimately show ?thesis using ws False by auto
qed

theorem transcript_text_nonempty_witness:
  "socketOpen ((handle (SocketOpen 0) example_world)\<lparr>transcriptRef := lit '' hello ''\<rparr>) = Some 0 \<and>
   sent (sendTranscript ((handle (SocketOpen 0) example_world)\<lparr>transcriptRef := lit '' hello ''\<rparr>))
     = [(0, user_audio_transcript (lit ''hello''))] \<and>
   sent (sendTranscript ((handle (SocketOpen 0) example_world)\<lparr>transcriptRef := lit ''  ''\<rparr>))
     = [(0, user_audio_transcript fallbackPhrase)]"
  using transcript_text_nonempty
          [of "(handle (SocketOpen 0) example_world)\<lparr>transcriptRef := lit '' hello ''\<rparr>" 0]
        transcript_text_nonempty
          [of "(handle (SocketOpen 0) example_world)\<lparr>transcriptRef := lit ''  ''\<rparr>" 0]
  by (simp add: example_defs socketOpen_def lookup_def ws_onopen_def setError_def trim_def
      isWhiteSpace_def)





subsection \<open>Starting a capture\<close>

text \<open>
  Claim C9. \<open>startRecording\<close> never rejects: it resolves with \<open>true\<close> when every step
  succeeds and with \<open>false\<close> when any step fails (microphone denied, device error,
  audio context, analyser, recorder), and after a failure the voice state is \<open>idle\<close>
  and the audio level is 0.
\<close>

theorem startRecording_result:
  "fst (startRecording m w) =
     Inr (getUserMedia m = None \<and> newAudioContext m = None \<and> createAnalyser m = None \<and>
          newMediaRecorder m = None \<and> recorderStart m = None) \<and>
   (getUserMedia m \<noteq> None \<or> newAudioContext m \<noteq> None \<or> createAnalyser m \<noteq> None \<or>
    newMediaRecorder m \<noteq> None \<or> recorderStart m \<noteq> None \<longrightarrow>
      state (snd (startRecording m w)) = Idle \<and>
      audioLevel (snd (startRecording m w)) = Some 0)"
  by (auto simp add: startRecording_def startRecording_try_def Let_def resetState_def
      setState_def setAudioLevel_def split: option.splits)

theorem startRecording_result_witness:
  "getUserMedia (example_media\<lparr>getUserMedia := Some (DOMException (lit ''NotAllowedError''))\<rparr>) \<noteq> None \<and>
   fst (startRecording (example_media\<lparr>getUserMedia := Some (DOMException (lit ''NotAllowedError''))\<rparr>)
          (setState Listening example_world)) = Inr False \<and>
   state (snd (startRecording (example_media\<lparr>getUserMedia := Some (DOMException (lit ''NotAllowedError''))\<rparr>)
          (setState Listening example_world))) = Idle \<and>
   fst (startRecording example_media example_world) = Inr True"
  using startRecording_result
          [of "example_media\<lparr>getUserMedia := Some (DOMException (lit ''NotAllowedError''))\<rparr>"
              "setState Listening example_world"]
        startRecording_result [of example_media example_world]
  by (simp add: example_media_def)

subsection \<open>Opening and reconnecting by hand\<close>





subsection \<open>The welcome is played once\<close>



subsection \<open>Reconnecting with backoff\<close>

text \<open>What leaves the reconnection state alone: everything but an open and an abnormal close.\<close>

lemma connection_update [simp]:
  "connection (w\<lparr>state := x1\<rparr>) = connection w"
  "connection (w\<lparr>audioLevel := x2\<rparr>) = connection w"
  "connection (w\<lparr>error := x3\<rparr>) = connection w"
  "connection (w\<lparr>currentSession := x4\<rparr>) = connection w"
  "connection (w\<lparr>fillerCount := x5\<rparr>) = connection w"
  "connection (w\<lparr>wpm := x6\<rparr>) = connection w"
  "connection (w\<lparr>mediaRecorderRef := x7\<rparr>) = connection w"
  "connection (w\<lparr>recorders := x8\<rparr>) = connection w"
  "connection (w\<lparr>audioChunksRef := x9\<rparr>) = connection w"
  "connection (w\<lparr>analyserRef := x10\<rparr>) = connection w"
  "connection (w\<lparr>animationFrameRef := x11\<rparr>) = connection w"
  "connection (w\<lparr>streamRef := x12\<rparr>) = connection w"
  "connection (w\<lparr>audioContextRef := x13\<rparr>) = connection w"
  "connection (w\<lparr>promises := x14\<rparr>) = connection w"
  "connection (w\<lparr>intervalRef := x15\<rparr>) = connection w"
  "connection (w\<lparr>spoken := x16\<rparr>) = connection w"
  "connection (w\<lparr>transcript := x17\<rparr>) = connection w"
  "connection (w\<lparr>interimTranscript := x18\<rparr>) = connection w"
  "connection (w\<lparr>recognitionRef := x19\<rparr>) = connection w"
  "connection (w\<lparr>isListeningRef := x20\<rparr>) = connection w"
  "connection (w\<lparr>rafRef := x21\<rparr>) = connection w"
  "connection (w\<lparr>transcriptRef := x22\<rparr>) = connection w"
  "connection (w\<lparr>aiQuestion := x23\<rparr>) = connection w"
  "connection (w\<lparr>isHolding := x24\<rparr>) = connection w"
  "connection (w\<lparr>isRecording := x25\<rparr>) = connection w"
  "connection (w\<lparr>fillerFlash := x26\<rparr>) = connection w"
  "connection (w\<lparr>isThinking := x27\<rparr>) = connection w"
  "connection (w\<lparr>isThinkingSlow := x28\<rparr>) = connection w"
  "connection (w\<lparr>thinkingTimerRef := x29\<rparr>) = connection w"
  "connection (w\<lparr>wsRef := x30\<rparr>) = connection w"
  "connection (w\<lparr>reconnectTimerRef := x31\<rparr>) = connection w"
  "connection (w\<lparr>welcomePlayedRef := x32\<rparr>) = connection w"
  "connection (w\<lparr>analyserAttachedRef := x33\<rparr>) = connection w"
  "connection (w\<lparr>effectDeps := x34\<rparr>) = connection w"
  "connection (w\<lparr>sockets := x35\<rparr>) = connection w"
  "connection (w\<lparr>sent := x36\<rparr>) = connection w"
  "connection (w\<lparr>console := x37\<rparr>) = connection w"
  "connection (w\<lparr>location := x38\<rparr>) = connection w"
  by (simp_all add: connection_def reconnectDelays_def)

lemma delays_cancel:
  "map fst (filter (\<lambda>t. fst (snd t) = cb) (cancel i ts))
     = map fst (filter (\<lambda>t. fst (snd t) = cb) ts)"
  by (induction i ts rule: cancel.induct) simp_all

lemma connection_clearTimeout [simp]: "connection (clearTimeout t w) = connection w"
  by (simp add: connection_def reconnectDelays_def clearTimeout_def delays_cancel)

lemma connection_setTimeout [simp]:
  "cb \<noteq> CbConnectWs \<Longrightarrow> connection (snd (setTimeout cb ms w)) = connection w"
  by (simp add: connection_def reconnectDelays_def setTimeout_def)

lemma connection_store [simp]:
  "connection (setState v w) = connection w"
  "connection (setAudioLevel l w) = connection w"
  "connection (setError e w) = connection w"
  "connection (speak text w) = connection w"
  "connection (stopSpeech w) = connection w"
  "connection (resetState w) = connection w"
  by (simp_all add: setState_def setAudioLevel_def setError_def speak_def stopSpeech_def
      resetState_def)

lemma connection_recognition [simp]:
  "connection (startListening w) = connection w"
  "connection (stopListening w) = connection w"
  "connection (clearTranscript w) = connection w"
  "connection (recognition_onstart w) = connection w"
  "connection (recognition_onresult f i w) = connection w"
  "connection (recognition_onend w) = connection w"
  "connection (attachAnalyser w) = connection w"
  "connection (detachSilence w) = connection w"
  by (simp_all add: startListening_def stopListening_def clearTranscript_def
      recognition_onstart_def recognition_onresult_def recognition_onend_def
      attachAnalyser_def detachSilence_def Let_def)

lemma connection_thinking [simp]:
  "connection (startThinkingTimer w) = connection w"
  "connection (clearThinkingTimer w) = connection w"
  by (simp_all add: startThinkingTimer_def clearThinkingTimer_def Let_def split_def
      split: option.splits)

lemma connection_sendTranscript [simp]:
  "connection (sendTranscript w) = connection w"
  "connection (turn_continuation w) = connection w"
  by (simp_all add: sendTranscript_def turn_continuation_def Let_def split: option.splits)

lemma connection_analyzeLoop [simp]: "connection (analyzeLoop d w) = connection w"
  by (simp add: analyzeLoop_def Let_def)

lemma connection_startRecording [simp]:
  "connection (snd (startRecording m w)) = connection w"
  by (simp add: startRecording_def startRecording_try_def Let_def split: option.splits)

lemma connection_stopRecording [simp]:
  "connection (snd (stopRecording w)) = connection w"
  by (simp add: stopRecording_def Let_def split_def split: option.splits)

lemma connection_resolve [simp]: "connection (resolve p v w) = connection w"
  by (simp add: resolve_def Let_def split: option.splits promise.splits)

lemma connection_recorder [simp]:
  "connection (recorder_onstop r w) = connection w"
  "connection (recorder_ondataavailable sz w) = connection w"
  by (simp_all add: recorder_onstop_def recorder_ondataavailable_def Let_def
      split: option.splits prod.splits)

lemma connection_closeSocket [simp]: "connection (closeSocket i w) = connection w"
  by (simp add: closeSocket_def split: option.splits ready_state.splits)

lemma connection_connectWs [simp]: "connection (uncaught (connectWs w)) = connection w"
  by (simp add: connectWs_def uncaught_def createVoiceWebSocket_def Let_def
      split: option.splits json.splits)

lemma connection_onmessage [simp]: "connection (ws_onmessage payload w) = connection w"
  by (simp add: ws_onmessage_def Let_def split: option.splits json.splits)

lemma connection_onerror [simp]: "connection (ws_onerror w) = connection w"
  by (simp add: ws_onerror_def)

lemma connection_effect [simp]:
  "connection (effect_cleanup w) = connection w"
  "connection (effect_run w) = connection w"
  "connection (small_effects w) = connection w"
  by (simp_all add: effect_cleanup_def effect_run_def small_effects_def Let_def
      split: option.splits)

lemma connection_render [simp]:
  "connection (effect_rerun w) = connection w"
  "connection (render w) = connection w"
  "connection (mount w) = connection w"
  "connection (unmount w) = connection w"
  by (simp_all add: effect_rerun_def render_def mount_def unmount_def Let_def
      split: option.splits)

lemma connection_turn [simp]:
  "connection (handleHoldStart m w) = connection w"
  "connection (await_turn p w) = connection w"
  "connection (handleHoldEnd w) = connection w"
  "connection (handlePushToggle m w) = connection w"
  by (simp_all add: handleHoldStart_def handleHoldStart_begin_def turnStart_resume_def
      await_turn_def handleHoldEnd_def handleHoldEnd_begin_def handlePushToggle_def
      Let_def split_def split: option.splits promise.splits)

lemma connection_run_callback [simp]:
  "connection (run_callback cb w) = connection w"
  by (cases cb) simp_all

lemma connection_fire [simp]: "connection (fire t w) = connection w"
  by (simp add: fire_def split: option.splits prod.splits bool.splits)

lemma connection_quiet_event:
  "\<not> isOpen e \<Longrightarrow> \<not> abnormalClose e \<Longrightarrow> connection (step e w) = connection w"
  by (cases e) (simp_all add: step_def ws_onclose_def split: option.splits)

lemma connection_abnormal_close:
  "code \<noteq> 1000 \<Longrightarrow>
   connection (step (SocketClose i code) w) =
     (if reconnectCountRef w < 5
      then (reconnectCountRef w + 1, lit ''reconnecting'',
            reconnectDelays w @ [min (1000 * 2 ^ reconnectCountRef w) 16000])
      else (reconnectCountRef w, lit ''failed'', reconnectDelays w))"
  by (simp add: step_def)
     (simp add: connection_def reconnectDelays_def ws_onclose_def setTimeout_def setError_def
       WS_MAX_RETRIES_def WS_RECONNECT_BASE_MS_def WS_RECONNECT_MAX_MS_def)

lemma connection_closes:
  "\<forall>e\<in>set evs. \<not> isOpen e \<Longrightarrow> reconnectCountRef w \<le> 5 \<Longrightarrow>
   connection (run evs w) =
     (min 5 (reconnectCountRef w + length (filter abnormalClose evs)),
      (if length (filter abnormalClose evs) = 0 then wsStatus w
       else if reconnectCountRef w + length (filter abnormalClose evs) \<le> 5
            then lit ''reconnecting'' else lit ''failed''),
      reconnectDelays w @
        map (\<lambda>k. min (1000 * 2 ^ k) 16000)
          [reconnectCountRef w ..< min 5 (reconnectCountRef w + length (filter abnormalClose evs))])"
proof (induction evs arbitrary: w)
  case Nil
  then show ?case by (simp add: connection_def)
next
  case (Cons e evs)
  have no_open: "\<forall>e\<in>set evs. \<not> isOpen e" and e_open: "\<not> isOpen e"
    using Cons.prems(1) by simp_all
  show ?case
  proof (cases "abnormalClose e")
    case False
    have same: "connection (step e w) = connection w"
      using e_open False by (rule connection_quiet_event)
    then have c: "reconnectCountRef (step e w) = reconnectCountRef w"
      and s: "wsStatus (step e w) = wsStatus w"
      and d: "reconnectDelays (step e w) = reconnectDelays w"
      by (simp_all add: connection_def)
    from Cons.IH [of "step e w"] no_open Cons.prems(2) c
    show ?thesis using False by (simp add: c s d)
  next
    case True
    then obtain i code where e: "e = SocketClose i code" and code: "code \<noteq> 1000"
      by (cases e) simp_all
    show ?thesis
    proof (cases "reconnectCountRef w < 5")
      case lt: True
      have "connection (step e w) =
          (reconnectCountRef w + 1, lit ''reconnecting'',
           reconnectDelays w @ [min (1000 * 2 ^ reconnectCountRef w) 16000])"
        using connection_abnormal_close [OF code, of i w] lt e by simp
      then have c: "reconnectCountRef (step e w) = reconnectCountRef w + 1"
        and s: "wsStatus (step e w) = lit ''reconnecting''"
        and d: "reconnectDelays (step e w) =
                  reconnectDelays w @ [min (1000 * 2 ^ reconnectCountRef w) 16000]"
        by (simp_all add: connection_def)
      have le: "reconnectCountRef (step e w) \<le> 5" using c lt by simp
      have u: "[reconnectCountRef w ..<
                  min 5 (Suc (reconnectCountRef w + length (filter abnormalClose evs)))]
               = reconnectCountRef w #
                 [Suc (reconnectCountRef w) ..<
                  min 5 (Suc (reconnectCountRef w + length (filter abnormalClose evs)))]"
        using lt by (simp add: upt_conv_Cons del: min_Suc_numeral min_numeral_Suc)
      from Cons.IH [OF no_open le]
      show ?thesis using True lt
        by (simp add: c s d u del: min_Suc_numeral min_numeral_Suc)
    next
      case ge: False
      with Cons.prems(2) have five: "reconnectCountRef w = 5" by simp
      have "connection (step e w) = (reconnectCountRef w, lit ''failed'', reconnectDelays w)"
        using connection_abnormal_close [OF code, of i w] ge e by simp
      then have c: "reconnectCountRef (step e w) = reconnectCountRef w"
        and s: "wsStatus (step e w) = lit ''failed''"
        and d: "reconnectDelays (step e w) = reconnectDelays w"
        by (simp_all add: connection_def)
      have le: "reconnectCountRef (step e w) \<le> 5" using c five by simp
      from Cons.IH [OF no_open le]
      show ?thesis using True five by (simp add: c s d)
    qed
  qed
qed

lemma backoff_prefix:
  "map (\<lambda>k. min (1000 * 2 ^ k) 16000) [0 ..< min 5 n]
     = take n [1000, 2000, 4000, 8000, 16000::nat]"
proof -
  have five: "(5::nat) = Suc (Suc (Suc (Suc (Suc 0))))" by simp
  have "n = 0 \<or> n = Suc 0 \<or> n = Suc (Suc 0) \<or> n = Suc (Suc (Suc 0)) \<or>
        n = Suc (Suc (Suc (Suc 0))) \<or> 5 \<le> n" by arith
  then show ?thesis
  proof (elim disjE)
    assume "5 \<le> n"
    then have m: "min 5 n = Suc (Suc (Suc (Suc (Suc 0))))" by simp
    show ?thesis using \<open>5 \<le> n\<close> by (simp only: m) simp
  qed simp_all
qed

text \<open>
  Claim C1. Start with the retry counter at 0 and let any events happen except a
  successful open. Then the delays of the reconnects that get scheduled are the first
  \<open>n\<close> of 1000, 2000, 4000, 8000, 16000, where \<open>n\<close> is the number of abnormal closes, so
  at most five; the delay at position \<open>k\<close> is \<open>min (1000 * 2 ^ k) 16000\<close>; the status is
  \<open>reconnecting\<close> after one to five abnormal closes and \<open>failed\<close> after the sixth, and
  from then on nothing more is scheduled.
\<close>

theorem reconnect_backoff:
  assumes "reconnectCountRef w = 0" and "\<forall>e\<in>set evs. \<not> isOpen e"
  shows "reconnectDelays (run evs w) =
           reconnectDelays w @
             take (length (filter abnormalClose evs)) [1000, 2000, 4000, 8000, 16000] \<and>
         (\<forall>k<5. [1000, 2000, 4000, 8000, 16000] ! k = min (1000 * 2 ^ k) (16000::nat)) \<and>
         (0 < length (filter abnormalClose evs) \<and> length (filter abnormalClose evs) \<le> 5 \<longrightarrow>
            wsStatus (run evs w) = lit ''reconnecting'') \<and>
         (5 < length (filter abnormalClose evs) \<longrightarrow> wsStatus (run evs w) = lit ''failed'')"
proof -
  have le: "reconnectCountRef w \<le> 5" using assms(1) by simp
  have c: "connection (run evs w) =
     (min 5 (length (filter abnormalClose evs)),
      (if length (filter abnormalClose evs) = 0 then wsStatus w
       else if length (filter abnormalClose evs) \<le> 5
            then lit ''reconnecting'' else lit ''failed''),
      reconnectDelays w @ take (length (filter abnormalClose evs)) [1000, 2000, 4000, 8000, 16000])"
    using connection_closes [OF assms(2) le] assms(1) by (simp add: backoff_prefix)
  have k: "\<forall>k<5. [1000, 2000, 4000, 8000, 16000] ! k = min (1000 * 2 ^ k) (16000::nat)"
  proof (intro allI impI)
    fix k :: nat assume "k < 5"
    then have "k = 0 \<or> k = 1 \<or> k = 2 \<or> k = 3 \<or> k = 4" by arith
    then show "[1000, 2000, 4000, 8000, 16000] ! k = min (1000 * 2 ^ k) (16000::nat)"
      by (elim disjE) simp_all
  qed
  from c have d: "reconnectDelays (run evs w) =
      reconnectDelays w @ take (length (filter abnormalClose evs)) [1000, 2000, 4000, 8000, 16000]"
    by (simp add: connection_def)
  from c have s: "wsStatus (run evs w) =
      (if length (filter abnormalClose evs) = 0 then wsStatus w
       else if length (filter abnormalClose evs) \<le> 5
            then lit ''reconnecting'' else lit ''failed'')"
    by (simp add: connection_def)
  show ?thesis using d k s by simp
qed

theorem reconnect_backoff_witness:
  "reconnectCountRef example_world = 0 \<and>
   filter isOpen six_failed_connections = [] \<and>
   length (filter abnormalClose six_failed_connections) = 6 \<and>
   reconnectDelays (run six_failed_connections example_world)
     = [1000, 2000, 4000, 8000, 16000] \<and>
   wsStatus (run six_failed_connections example_world) = lit ''failed''"
proof -
  have a: "reconnectCountRef example_world = 0" by (simp add: example_defs)
  have b: "\<forall>e\<in>set six_failed_connections. \<not> isOpen e"
    by (simp add: six_failed_connections_def)
  have n: "length (filter abnormalClose six_failed_connections) = 6"
    by (simp add: six_failed_connections_def)
  have d0: "reconnectDelays example_world = []"
    by (simp add: reconnectDelays_def example_defs)
  have o: "filter isOpen six_failed_connections = []"
    by (simp add: six_failed_connections_def)
  from reconnect_backoff [OF a b] a o n d0 show ?thesis by simp
qed

subsection \<open>Stopping a capture\<close>

lemma consistent_tables: "consistent w \<Longrightarrow> tables w' = tables w \<Longrightarrow> consistent w'"
  by (simp add: consistent_def tables_def)

lemma consistent_tablesT:
  "tables w = (ts, ps, rs, th, rc) \<Longrightarrow> consistent w = consistentT ts ps rs th rc"
  by (simp add: consistent_def tables_def)

lemma tables_update [simp]:
  "tables (w\<lparr>state := x0\<rparr>) = tables w"
  "tables (w\<lparr>audioLevel := x1\<rparr>) = tables w"
  "tables (w\<lparr>error := x2\<rparr>) = tables w"
  "tables (w\<lparr>currentSession := x3\<rparr>) = tables w"
  "tables (w\<lparr>fillerCount := x4\<rparr>) = tables w"
  "tables (w\<lparr>wpm := x5\<rparr>) = tables w"
  "tables (w\<lparr>mediaRecorderRef := x6\<rparr>) = tables w"
  "tables (w\<lparr>audioChunksRef := x7\<rparr>) = tables w"
  "tables (w\<lparr>analyserRef := x8\<rparr>) = tables w"
  "tables (w\<lparr>animationFrameRef := x9\<rparr>) = tables w"
  "tables (w\<lparr>streamRef := x10\<rparr>) = tables w"
  "tables (w\<lparr>audioContextRef := x11\<rparr>) = tables w"
  "tables (w\<lparr>intervalRef := x12\<rparr>) = tables w"
  "tables (w\<lparr>spoken := x13\<rparr>) = tables w"
  "tables (w\<lparr>transcript := x14\<rparr>) = tables w"
  "tables (w\<lparr>interimTranscript := x15\<rparr>) = tables w"
  "tables (w\<lparr>recognitionRef := x16\<rparr>) = tables w"
  "tables (w\<lparr>isListeningRef := x17\<rparr>) = tables w"
  "tables (w\<lparr>rafRef := x18\<rparr>) = tables w"
  "tables (w\<lparr>transcriptRef := x19\<rparr>) = tables w"
  "tables (w\<lparr>aiQuestion := x20\<rparr>) = tables w"
  "tables (w\<lparr>isHolding := x21\<rparr>) = tables w"
  "tables (w\<lparr>isRecording := x22\<rparr>) = tables w"
  "tables (w\<lparr>fillerFlash := x23\<rparr>) = tables w"
  "tables (w\<lparr>isThinking := x24\<rparr>) = tables w"
  "tables (w\<lparr>isThinkingSlow := x25\<rparr>) = tables w"
  "tables (w\<lparr>wsRef := x26\<rparr>) = tables w"
  "tables (w\<lparr>reconnectCountRef := x27\<rparr>) = tables w"
  "tables (w\<lparr>welcomePlayedRef := x28\<rparr>) = tables w"
  "tables (w\<lparr>analyserAttachedRef := x29\<rparr>) = tables w"
  "tables (w\<lparr>wsStatus := x30\<rparr>) = tables w"
  "tables (w\<lparr>effectDeps := x31\<rparr>) = tables w"
  "tables (w\<lparr>sockets := x32\<rparr>) = tables w"
  "tables (w\<lparr>sent := x33\<rparr>) = tables w"
  "tables (w\<lparr>console := x34\<rparr>) = tables w"
  "tables (w\<lparr>location := x35\<rparr>) = tables w"
  by (simp_all add: tables_def)

lemma tables_simple [simp]:
  "tables (setState v w) = tables w"
  "tables (setAudioLevel l w) = tables w"
  "tables (setError e w) = tables w"
  "tables (speak text w) = tables w"
  "tables (stopSpeech w) = tables w"
  "tables (resetState w) = tables w"
  "tables (startListening w) = tables w"
  "tables (stopListening w) = tables w"
  "tables (clearTranscript w) = tables w"
  "tables (recognition_onstart w) = tables w"
  "tables (recognition_onresult f g w) = tables w"
  "tables (recognition_onend w) = tables w"
  "tables (attachAnalyser w) = tables w"
  "tables (detachSilence w) = tables w"
  "tables (analyzeLoop d w) = tables w"
  "tables (recorder_ondataavailable sz w) = tables w"
  "tables (closeSocket i w) = tables w"
  "tables (uncaught (connectWs w)) = tables w"
  "tables (ws_onopen w) = tables w"
  "tables (ws_onerror w) = tables w"
  "tables (small_effects w) = tables w"
  by (simp_all add: setState_def setAudioLevel_def setError_def speak_def stopSpeech_def
      resetState_def startListening_def stopListening_def clearTranscript_def
      recognition_onstart_def recognition_onresult_def recognition_onend_def
      attachAnalyser_def detachSilence_def analyzeLoop_def recorder_ondataavailable_def
      closeSocket_def connectWs_def uncaught_def createVoiceWebSocket_def ws_onopen_def
      ws_onerror_def small_effects_def Let_def
      split: option.splits ready_state.splits json.splits)

lemma consistent_update [simp]:
  "consistent w \<Longrightarrow> consistent (w\<lparr>state := x0\<rparr>)"
  "consistent w \<Longrightarrow> consistent (w\<lparr>audioLevel := x1\<rparr>)"
  "consistent w \<Longrightarrow> consistent (w\<lparr>error := x2\<rparr>)"
  "consistent w \<Longrightarrow> consistent (w\<lparr>currentSession := x3\<rparr>)"
  "consistent w \<Longrightarrow> consistent (w\<lparr>fillerCount := x4\<rparr>)"
  "consistent w \<Longrightarrow> consistent (w\<lparr>wpm := x5\<rparr>)"
  "consistent w \<Longrightarrow> consistent (w\<lparr>mediaRecorderRef := x6\<rparr>)"
  "consistent w \<Longrightarrow> consistent (w\<lparr>audioChunksRef := x7\<rparr>)"
  "consistent w \<Longrightarrow> consistent (w\<lparr>analyserRef := x8\<rparr>)"
  "consistent w \<Longrightarrow> consistent (w\<lparr>animationFrameRef := x9\<rparr>)"
  "consistent w \<Longrightarrow> consistent (w\<lparr>streamRef := x10\<rparr>)"
  "consistent w \<Longrightarrow> consistent (w\<lparr>audioContextRef := x11\<rparr>)"
  "consistent w \<Longrightarrow> consistent (w\<lparr>intervalRef := x12\<rparr>)"
  "consistent w \<Longrightarrow> consistent (w\<lparr>spoken := x13\<rparr>)"
  "consistent w \<Longrightarrow> consistent (w\<lparr>transcript := x14\<rparr>)"
  "consistent w \<Longrightarrow> consistent (w\<lparr>interimTranscript := x15\<rparr>)"
  "consistent w \<Longrightarrow> consistent (w\<lparr>recognitionRef := x16\<rparr>)"
  "consistent w \<Longrightarrow> consistent (w\<lparr>isListeningRef := x17\<rparr>)"
  "consistent w \<Longrightarrow> consistent (w\<lparr>rafRef := x18\<rparr>)"
  "consistent w \<Longrightarrow> consistent (w\<lparr>transcriptRef := x19\<rparr>)"
  "consistent w \<Longrightarrow> consistent (w\<lparr>aiQuestion := x20\<rparr>)"
  "consistent w \<Longrightarrow> consistent (w\<lparr>isHolding := x21\<rparr>)"
  "consistent w \<Longrightarrow> consistent (w\<lparr>isRecording := x22\<rparr>)"
  "consistent w \<Longrightarrow> consistent (w\<lparr>fillerFlash := x23\<rparr>)"
  "consistent w \<Longrightarrow> consistent (w\<lparr>isThinking := x24\<rparr>)"
  "consistent w \<Longrightarrow> consistent (w\<lparr>isThinkingSlow := x25\<rparr>)"
  "consistent w \<Longrightarrow> consistent (w\<lparr>wsRef := x26\<rparr>)"
  "consistent w \<Longrightarrow> consistent (w\<lparr>reconnectCountRef := x27\<rparr>)"
  "consistent w \<Longrightarrow> consistent (w\<lparr>welcomePlayedRef := x28\<rparr>)"
  "consistent w \<Longrightarrow> consistent (w\<lparr>analyserAttachedRef := x29\<rparr>)"
  "consistent w \<Longrightarrow> consistent (w\<lparr>wsStatus := x30\<rparr>)"
  "consistent w \<Longrightarrow> consistent (w\<lparr>effectDeps := x31\<rparr>)"
  "consistent w \<Longrightarrow> consistent (w\<lparr>sockets := x32\<rparr>)"
  "consistent w \<Longrightarrow> consistent (w\<lparr>sent := x33\<rparr>)"
  "consistent w \<Longrightarrow> consistent (w\<lparr>console := x34\<rparr>)"
  "consistent w \<Longrightarrow> consistent (w\<lparr>location := x35\<rparr>)"
  by (erule consistent_tables, simp)+

lemma consistent_simple [simp]:
  "consistent w \<Longrightarrow> consistent (setState v w)"
  "consistent w \<Longrightarrow> consistent (setAudioLevel l w)"
  "consistent w \<Longrightarrow> consistent (setError e w)"
  "consistent w \<Longrightarrow> consistent (speak text w)"
  "consistent w \<Longrightarrow> consistent (stopSpeech w)"
  "consistent w \<Longrightarrow> consistent (resetState w)"
  "consistent w \<Longrightarrow> consistent (startListening w)"
  "consistent w \<Longrightarrow> consistent (stopListening w)"
  "consistent w \<Longrightarrow> consistent (clearTranscript w)"
  "consistent w \<Longrightarrow> consistent (recognition_onstart w)"
  "consistent w \<Longrightarrow> consistent (recognition_onresult f g w)"
  "consistent w \<Longrightarrow> consistent (recognition_onend w)"
  "consistent w \<Longrightarrow> consistent (attachAnalyser w)"
  "consistent w \<Longrightarrow> consistent (detachSilence w)"
  "consistent w \<Longrightarrow> consistent (analyzeLoop d w)"
  "consistent w \<Longrightarrow> consistent (recorder_ondataavailable sz w)"
  "consistent w \<Longrightarrow> consistent (closeSocket i w)"
  "consistent w \<Longrightarrow> consistent (uncaught (connectWs w))"
  "consistent w \<Longrightarrow> consistent (ws_onopen w)"
  "consistent w \<Longrightarrow> consistent (ws_onerror w)"
  "consistent w \<Longrightarrow> consistent (small_effects w)"
  by (erule consistent_tables, simp)+

lemma lookup_append:
  "lookup (xs @ [x]) i =
     (if i < length xs then lookup xs i else if i = length xs then Some x else None)"
  by (simp add: lookup_def nth_append)

lemma lookup_update:
  "lookup (list_update xs i x) j = (if j = i \<and> i < length xs then Some x else lookup xs j)"
  by (simp add: lookup_def)

lemma length_cancel [simp]: "length (cancel i ts) = length ts"
  by (induction i ts rule: cancel.induct) simp_all

lemma nth_cancel:
  "j < length ts \<Longrightarrow>
   cancel i ts ! j = (if j = i then (fst (ts ! j), fst (snd (ts ! j)), False) else ts ! j)"
proof (induction i ts arbitrary: j rule: cancel.induct)
  case (1 i)
  then show ?case by simp
next
  case (2 ms cb a ts)
  then show ?case by (cases j) simp_all
next
  case (3 i t ts)
  then show ?case by (cases j) simp_all
qed

lemma timerHas_cancel [simp]: "timerHas (cancel i ts) t cb = timerHas ts t cb"
  by (simp add: timerHas_def lookup_def nth_cancel split: prod.splits)

lemma timerHas_unique: "timerHas ts t cb \<Longrightarrow> timerHas ts t cb' \<Longrightarrow> cb = cb'"
  by (auto simp add: timerHas_def split: option.splits)

lemma timerHas_append [simp]: "timerHas ts t cb \<Longrightarrow> timerHas (ts @ [x]) t cb"
  by (auto simp add: timerHas_def lookup_def nth_append split: if_splits)

lemma timerHas_new [simp]: "timerHas (ts @ [(ms, cb, a)]) (length ts) cb"
  by (simp add: timerHas_def lookup_def)

lemma armed_cancel:
  assumes "(ms, cb, a) \<in> set ts" and "\<not> timerHas ts i cb"
  shows "(ms, cb, a) \<in> set (cancel i ts)"
proof -
  from assms(1) obtain j where j: "j < length ts" "ts ! j = (ms, cb, a)"
    by (auto simp add: in_set_conv_nth)
  with assms(2) have "j \<noteq> i" by (auto simp add: timerHas_def lookup_def)
  with j have "cancel i ts ! j = (ms, cb, a)" by (simp add: nth_cancel)
  with j(1) show ?thesis
    by (auto simp add: in_set_conv_nth intro!: exI [of _ j])
qed

text \<open>The invariant under each change of the tables.\<close>

lemma cT_timer_new: "consistentT ts ps rs th rc \<Longrightarrow> consistentT (ts @ [x]) ps rs th rc"
  unfolding consistentT_def by simp

lemma cT_cancel:
  "consistentT ts ps rs th rc \<Longrightarrow> \<forall>p. \<not> timerHas ts t (CbStopTimeout p) \<Longrightarrow>
   consistentT (cancel t ts) ps rs th rc"
  unfolding consistentT_def by (auto intro: armed_cancel)

lemma cT_cancel_kind:
  assumes "consistentT ts ps rs th rc" and "timerHas ts t cb" and "\<forall>p. cb \<noteq> CbStopTimeout p"
  shows "consistentT (cancel t ts) ps rs th rc"
  using assms(1)
proof (rule cT_cancel)
  show "\<forall>p. \<not> timerHas ts t (CbStopTimeout p)"
    using assms(2,3) by (auto dest: timerHas_unique)
qed

lemma cT_thinking_None: "consistentT ts ps rs th rc \<Longrightarrow> consistentT ts ps rs None rc"
  unfolding consistentT_def by simp

lemma cT_thinking_Some:
  "consistentT ts ps rs th rc \<Longrightarrow> timerHas ts t CbThinkingSlow \<Longrightarrow>
   consistentT ts ps rs (Some t) rc"
  unfolding consistentT_def by simp

lemma cT_reconnect_Some:
  "consistentT ts ps rs th rc \<Longrightarrow> timerHas ts t CbConnectWs \<Longrightarrow>
   consistentT ts ps rs th (Some t)"
  unfolding consistentT_def by simp

lemma cT_recorder_new:
  "consistentT ts ps rs th rc \<Longrightarrow> consistentT ts ps (rs @ [(st, None)]) th rc"
  unfolding consistentT_def by simp

lemma cT_stop:
  assumes "consistentT ts ps rs th rc"
  shows "consistentT (ts @ [(STOP_TIMEOUT_MS, CbStopTimeout (length ps), True)])
           (ps @ [Pending False])
           (list_update rs r (Inactive, Some (length ts, length ps))) th rc"
  using assms unfolding consistentT_def
  by (auto simp add: lookup_append split: if_splits
      dest!: set_update_subset_insert [THEN subsetD])

lemma cT_resolved:
  "consistentT ts ps rs th rc \<Longrightarrow> consistentT ts (list_update ps p (Resolved v)) rs th rc"
  unfolding consistentT_def by (auto simp add: lookup_update split: if_splits)

lemma cT_waiting:
  "consistentT ts ps rs th rc \<Longrightarrow> lookup ps p = Some (Pending b) \<Longrightarrow>
   consistentT ts (list_update ps p (Pending True)) rs th rc"
  unfolding consistentT_def by (auto simp add: lookup_update split: if_splits)

lemma pending_after_update:
  "lookup (list_update ps p (Resolved v)) q = Some (Pending b) \<Longrightarrow>
   q \<noteq> p \<and> lookup ps q = Some (Pending b)"
  by (cases "q = p") (auto simp add: lookup_def split: if_splits)

lemma cT_cancel_resolved:
  assumes "consistentT ts ps rs th rc" and "timerHas ts t (CbStopTimeout p)"
  shows "consistentT (cancel t ts) (list_update ps p (Resolved v)) rs th rc"
proof -
  have "(STOP_TIMEOUT_MS, CbStopTimeout q, True) \<in> set (cancel t ts)"
    if "lookup (list_update ps p (Resolved v)) q = Some (Pending b)" for q b
  proof -
    from that have q: "q \<noteq> p" "lookup ps q = Some (Pending b)"
      by (auto dest: pending_after_update)
    from assms(1) q(2) have "(STOP_TIMEOUT_MS, CbStopTimeout q, True) \<in> set ts"
      unfolding consistentT_def by blast
    moreover have "\<not> timerHas ts t (CbStopTimeout q)"
      using assms(2) q(1) by (auto dest: timerHas_unique)
    ultimately show ?thesis by (rule armed_cancel)
  qed
  then show ?thesis
    using assms(1) unfolding consistentT_def by auto
qed

lemma cT_cancel_settled:
  assumes "consistentT ts ps rs th rc" and "timerHas ts t (CbStopTimeout p)"
    and "\<forall>b. lookup ps p \<noteq> Some (Pending b)"
  shows "consistentT (cancel t ts) ps rs th rc"
proof -
  have "(STOP_TIMEOUT_MS, CbStopTimeout q, True) \<in> set (cancel t ts)"
    if "lookup ps q = Some (Pending b)" for q b
  proof -
    from assms(1) that have "(STOP_TIMEOUT_MS, CbStopTimeout q, True) \<in> set ts"
      unfolding consistentT_def by blast
    moreover from that assms(3) have "q \<noteq> p" by auto
    with assms(2) have "\<not> timerHas ts t (CbStopTimeout q)"
      by (auto dest: timerHas_unique)
    ultimately show ?thesis by (rule armed_cancel)
  qed
  then show ?thesis
    using assms(1) unfolding consistentT_def by auto
qed

lemma cT_promise_settled_new:
  "consistentT ts ps rs th rc \<Longrightarrow> consistentT ts (ps @ [Resolved v]) rs th rc"
  unfolding consistentT_def by (auto simp add: lookup_append split: if_splits)

lemma cT_thinking_new:
  "consistentT ts ps rs th rc \<Longrightarrow>
   consistentT (ts @ [(ms, CbThinkingSlow, a)]) ps rs (Some (length ts)) rc"
  by (rule cT_thinking_Some, erule cT_timer_new, rule timerHas_new)

lemma cT_reconnect_new:
  "consistentT ts ps rs th rc \<Longrightarrow>
   consistentT (ts @ [(ms, CbConnectWs, a)]) ps rs th (Some (length ts))"
  by (rule cT_reconnect_Some, erule cT_timer_new, rule timerHas_new)

text \<open>The invariant under each function of the model, each event, and each run.\<close>

lemma consistent_setTimeout [simp]:
  "consistent w \<Longrightarrow> consistent (snd (setTimeout cb ms w))"
  by (simp add: consistent_def setTimeout_def cT_timer_new)

lemma consistent_clearTimeout_kind:
  "consistent w \<Longrightarrow> timerHas (timers w) t cb \<Longrightarrow> \<forall>p. cb \<noteq> CbStopTimeout p \<Longrightarrow>
   consistent (clearTimeout t w)"
  by (simp add: consistent_def clearTimeout_def) (erule cT_cancel_kind)

lemma consistent_clearThinkingTimer [simp]:
  assumes "consistent w"
  shows "consistent (clearThinkingTimer w)"
proof (cases "thinkingTimerRef w")
  case None
  then have "tables (clearThinkingTimer w) = tables w"
    by (simp add: clearThinkingTimer_def Let_def)
  with assms show ?thesis by (rule consistent_tables)
next
  case (Some t)
  let ?w1 = "w\<lparr>isThinking := False, isThinkingSlow := False\<rparr>"
  have c1: "consistent ?w1" using assms by simp
  have "timerHas (timers w) t CbThinkingSlow"
    using assms Some unfolding consistent_def consistentT_def by blast
  then have k: "timerHas (timers ?w1) t CbThinkingSlow" by simp
  have n: "\<forall>p. CbThinkingSlow \<noteq> CbStopTimeout p" by simp
  have "consistent (clearTimeout t ?w1)"
    using c1 k n by (rule consistent_clearTimeout_kind)
  then have "consistent ((clearTimeout t ?w1)\<lparr>thinkingTimerRef := None\<rparr>)"
    by (simp add: consistent_def cT_thinking_None)
  moreover have "clearThinkingTimer w = (clearTimeout t ?w1)\<lparr>thinkingTimerRef := None\<rparr>"
    using Some by (simp add: clearThinkingTimer_def Let_def)
  ultimately show ?thesis by simp
qed

lemma consistent_startThinkingTimer [simp]:
  "consistent w \<Longrightarrow> consistent (startThinkingTimer w)"
  by (simp add: consistent_def startThinkingTimer_def setTimeout_def Let_def
      cT_thinking_new)

lemma consistent_sendTranscript [simp]:
  "consistent w \<Longrightarrow> consistent (sendTranscript w)"
  by (simp add: sendTranscript_def Let_def split: option.splits)

lemma consistent_turn_continuation [simp]:
  "consistent w \<Longrightarrow> consistent (turn_continuation w)"
  by (simp add: turn_continuation_def)

lemma consistent_startRecording [simp]:
  "consistent w \<Longrightarrow> consistent (snd (startRecording m w))"
  by (simp add: consistent_def startRecording_def startRecording_try_def analyzeLoop_def
      resetState_def setState_def setAudioLevel_def Let_def cT_recorder_new
      split: option.splits)

lemma consistent_stopRecording [simp]:
  "consistent w \<Longrightarrow> consistent (snd (stopRecording w))"
  by (simp add: consistent_def stopRecording_def setTimeout_def resetState_def setState_def
      setAudioLevel_def Let_def split_def cT_stop cT_promise_settled_new
      split: option.splits)

lemma consistent_resolve [simp]:
  assumes "consistent w"
  shows "consistent (resolve p v w)"
proof (cases "lookup (promises w) p")
  case None
  then show ?thesis using assms by (simp add: resolve_def)
next
  case (Some pr)
  show ?thesis
  proof (cases pr)
    case (Pending waiting)
    have "consistent (w\<lparr>promises := list_update (promises w) p (Resolved v)\<rparr>)"
      using assms by (simp add: consistent_def cT_resolved)
    then show ?thesis using Some Pending by (simp add: resolve_def Let_def)
  next
    case (Resolved x)
    then show ?thesis using assms Some by (simp add: resolve_def)
  qed
qed

lemma consistent_await_turn [simp]:
  assumes "consistent w"
  shows "consistent (await_turn p w)"
proof (cases "lookup (promises w) p")
  case None
  then show ?thesis using assms by (simp add: await_turn_def)
next
  case (Some pr)
  show ?thesis
  proof (cases pr)
    case (Pending waiting)
    have "consistent (w\<lparr>promises := list_update (promises w) p (Pending True)\<rparr>)"
      using assms Some Pending by (simp add: consistent_def cT_waiting)
    then show ?thesis using Some Pending by (simp add: await_turn_def)
  next
    case (Resolved x)
    then show ?thesis using assms Some by (simp add: await_turn_def)
  qed
qed

lemma consistent_cancel_resolve:
  assumes "consistent w" and "timerHas (timers w) t (CbStopTimeout p)"
  shows "consistent (resolve p v (clearTimeout t w))"
proof (cases "\<exists>b. lookup (promises w) p = Some (Pending b)")
  case True
  then obtain b where b: "lookup (promises w) p = Some (Pending b)" by blast
  have "consistent (w\<lparr>timers := cancel t (timers w),
                      promises := list_update (promises w) p (Resolved v)\<rparr>)"
    using assms by (simp add: consistent_def cT_cancel_resolved)
  then show ?thesis using b by (simp add: resolve_def clearTimeout_def Let_def)
next
  case False
  have "consistent (w\<lparr>timers := cancel t (timers w)\<rparr>)"
    using assms False by (simp add: consistent_def cT_cancel_settled)
  moreover have "resolve p v (clearTimeout t w) = w\<lparr>timers := cancel t (timers w)\<rparr>"
    using False by (simp add: resolve_def clearTimeout_def split: option.splits promise.splits)
  ultimately show ?thesis by simp
qed

lemma lookup_in_set: "lookup xs i = Some x \<Longrightarrow> x \<in> set xs"
  by (auto simp add: lookup_def split: if_splits)

lemma consistent_recorder_onstop [simp]:
  assumes "consistent w"
  shows "consistent (recorder_onstop r w)"
proof (cases "lookup (recorders w) r")
  case None
  then show ?thesis using assms by (simp add: recorder_onstop_def)
next
  case (Some rec)
  obtain st h where rec: "rec = (st, h)" by (cases rec)
  show ?thesis
  proof (cases h)
    case None
    then show ?thesis using assms Some rec by (simp add: recorder_onstop_def)
  next
    case (Some tp)
    obtain t p where tp: "tp = (t, p)" by (cases tp)
    have "(st, Some (t, p)) \<in> set (recorders w)"
      using \<open>lookup (recorders w) r = Some rec\<close> rec Some tp by (auto dest: lookup_in_set)
    then have "timerHas (timers w) t (CbStopTimeout p)"
      using assms unfolding consistent_def consistentT_def by blast
    with assms have "\<And>v. consistent (resolve p v (clearTimeout t w))"
      by (rule consistent_cancel_resolve)
    then show ?thesis
      using \<open>lookup (recorders w) r = Some rec\<close> rec Some tp
      by (simp add: recorder_onstop_def Let_def)
  qed
qed

lemma timerHas_lookup: "lookup ts t = Some (ms, cb, a) \<Longrightarrow> timerHas ts t cb"
  by (simp add: timerHas_def)

lemma consistent_fire [simp]:
  assumes "consistent w"
  shows "consistent (fire t w)"
proof (cases "lookup (timers w) t")
  case None
  then show ?thesis using assms by (simp add: fire_def)
next
  case (Some e)
  obtain ms cb a where e: "e = (ms, cb, a)" by (cases e)
  show ?thesis
  proof (cases a)
    case False
    then show ?thesis using assms Some e by (simp add: fire_def)
  next
    case True
    have has: "timerHas (timers w) t cb" using Some e by (auto intro: timerHas_lookup)
    have "consistent (run_callback cb (clearTimeout t w))"
    proof (cases cb)
      case CbConnectWs
      with assms has have "consistent (clearTimeout t w)"
        by (auto intro: consistent_clearTimeout_kind)
      then show ?thesis using CbConnectWs by simp
    next
      case CbThinkingSlow
      with assms has have "consistent (clearTimeout t w)"
        by (auto intro: consistent_clearTimeout_kind)
      then show ?thesis using CbThinkingSlow by simp
    next
      case CbFillerFlashOff
      with assms has have "consistent (clearTimeout t w)"
        by (auto intro: consistent_clearTimeout_kind)
      then show ?thesis using CbFillerFlashOff by simp
    next
      case (CbStopTimeout p)
      with assms has show ?thesis by (simp add: consistent_cancel_resolve)
    qed
    then show ?thesis using Some e True by (simp add: fire_def)
  qed
qed

lemma consistent_onclose [simp]:
  "consistent w \<Longrightarrow> consistent (ws_onclose code w)"
  by (simp add: ws_onclose_def Let_def split_def)
     (simp add: consistent_def setTimeout_def cT_reconnect_new)

lemma consistent_onmessage [simp]:
  "consistent w \<Longrightarrow> consistent (ws_onmessage payload w)"
  by (simp add: ws_onmessage_def Let_def split: option.splits json.splits)

lemma consistent_effect_cleanup [simp]:
  assumes "consistent w"
  shows "consistent (effect_cleanup w)"
proof -
  have "consistent (case reconnectTimerRef w of Some t \<Rightarrow> clearTimeout t w | None \<Rightarrow> w)"
  proof (cases "reconnectTimerRef w")
    case None
    then show ?thesis using assms by simp
  next
    case (Some t)
    then have "timerHas (timers w) t CbConnectWs"
      using assms unfolding consistent_def consistentT_def by blast
    with assms have "consistent (clearTimeout t w)"
      by (auto intro: consistent_clearTimeout_kind)
    then show ?thesis using Some by simp
  qed
  then show ?thesis
    by (simp add: effect_cleanup_def Let_def split: option.splits)
qed

lemma consistent_effects [simp]:
  "consistent w \<Longrightarrow> consistent (effect_run w)"
  "consistent w \<Longrightarrow> consistent (effect_rerun w)"
  "consistent w \<Longrightarrow> consistent (render w)"
  "consistent w \<Longrightarrow> consistent (mount w)"
  "consistent w \<Longrightarrow> consistent (unmount w)"
  by (simp_all add: effect_run_def effect_rerun_def render_def mount_def unmount_def Let_def
      split: option.splits)

lemma consistent_turns [simp]:
  "consistent w \<Longrightarrow> consistent (handleHoldStart m w)"
  "consistent w \<Longrightarrow> consistent (handleHoldEnd w)"
  "consistent w \<Longrightarrow> consistent (handlePushToggle m w)"
  by (simp_all add: handleHoldStart_def handleHoldStart_begin_def turnStart_resume_def
      handleHoldEnd_def handleHoldEnd_begin_def handlePushToggle_def Let_def split_def)

lemma consistent_step: "consistent w \<Longrightarrow> consistent (step e w)"
  by (cases e) (simp_all add: step_def split: option.splits)

lemma consistent_run: "consistent w \<Longrightarrow> consistent (run evs w)"
  by (induction evs arbitrary: w) (simp_all add: consistent_step)

lemma consistent_initial: "consistent (mount (initial session recognition parse add))"
proof -
  have "consistent (initial session recognition parse add)"
    by (simp add: consistent_def consistentT_def initial_def lookup_def)
  then show ?thesis by simp
qed

lemma promises_turn_continuation [simp]:
  "promises (turn_continuation w) = promises w"
  by (simp add: turn_continuation_def sendTranscript_def startThinkingTimer_def
      setTimeout_def clearTranscript_def stopListening_def Let_def split: option.splits)

lemma resolve_pending:
  "lookup (promises w) p = Some (Pending b) \<Longrightarrow>
   lookup (promises (resolve p v w)) p = Some (Resolved v)"
  by (auto simp add: resolve_def Let_def lookup_def split: if_splits)

lemma fire_resolves:
  assumes "lookup (timers w) t = Some (ms, CbStopTimeout p, True)"
    and "lookup (promises w) p = Some (Pending b)"
  shows "lookup (promises (fire t w)) p = Some (Resolved None)"
proof -
  have "lookup (promises (clearTimeout t w)) p = Some (Pending b)"
    using assms(2) by (simp add: clearTimeout_def)
  then have "lookup (promises (resolve p None (clearTimeout t w))) p = Some (Resolved None)"
    by (rule resolve_pending)
  then show ?thesis using assms(1) by (simp add: fire_def)
qed

lemma stop_immediate:
  "(case mediaRecorder w of None \<Rightarrow> True | Some (r, st) \<Rightarrow> st = Inactive) \<Longrightarrow>
   stopRecording w = (length (promises w), w\<lparr>promises := promises w @ [Resolved None]\<rparr>)"
  by (simp add: stopRecording_def Let_def split: option.splits prod.splits)

lemma mediaRecorder_SomeD:
  "mediaRecorder w = Some (r, st) \<Longrightarrow>
   mediaRecorderRef w = Some r \<and> r < length (recorders w) \<and> fst (recorders w ! r) = st"
  by (auto simp add: mediaRecorder_def lookup_def split: option.splits if_splits prod.splits)

lemma stop_active:
  assumes m: "mediaRecorder w = Some (r, st)" and st: "st \<noteq> Inactive"
  shows "fst (stopRecording w) = length (promises w)"
    and "lookup (promises (snd (stopRecording w))) (length (promises w)) = Some (Pending False)"
    and "lookup (timers (snd (stopRecording w))) (length (timers w))
           = Some (5000, CbStopTimeout (length (promises w)), True)"
    and "lookup (recorders (snd (stopRecording w))) r
           = Some (Inactive, Some (length (timers w), length (promises w)))"
    and "audioChunksRef (snd (stopRecording w)) = audioChunksRef w"
  using m st mediaRecorder_SomeD [OF m]
  by (simp_all add: stopRecording_def Let_def split_def setTimeout_def resetState_def
      setState_def setAudioLevel_def lookup_def STOP_TIMEOUT_MS_def split: option.splits)

lemma stop_then_event:
  assumes m: "mediaRecorder w = Some (r, st)" and st: "st \<noteq> Inactive"
  shows "lookup (promises (recorder_onstop r (snd (stopRecording w)))) (length (promises w))
           = Some (Resolved (if audioChunksRef w = [] then None else Some (audioChunksRef w)))"
    and "lookup (promises (fire (length (timers w)) (snd (stopRecording w)))) (length (promises w))
           = Some (Resolved None)"
proof -
  let ?w' = "snd (stopRecording w)"
  let ?p = "length (promises w)"
  let ?t = "length (timers w)"
  note a = stop_active [OF m st]
  have "lookup (promises (clearTimeout ?t ?w')) ?p = Some (Pending False)"
    using a(2) by (simp add: clearTimeout_def)
  then have "\<And>v. lookup (promises (resolve ?p v (clearTimeout ?t ?w'))) ?p = Some (Resolved v)"
    by (rule resolve_pending)
  then show "lookup (promises (recorder_onstop r ?w')) ?p
           = Some (Resolved (if audioChunksRef w = [] then None else Some (audioChunksRef w)))"
    using a(4) a(5) by (simp add: recorder_onstop_def Let_def clearTimeout_def)
  show "lookup (promises (fire ?t ?w')) ?p = Some (Resolved None)"
    using a(3) a(2) by (rule fire_resolves)
qed

lemma reachable_promise:
  assumes "consistent w" and "p < length (promises w)"
  shows "(\<exists>v. lookup (promises w) p = Some (Resolved v)) \<or>
         (\<exists>t. lookup (timers w) t = Some (5000, CbStopTimeout p, True) \<and>
              lookup (promises (fire t w)) p = Some (Resolved None))"
proof (cases "promises w ! p")
  case (Resolved v)
  then show ?thesis using assms(2) by (simp add: lookup_def)
next
  case (Pending b)
  then have pend: "lookup (promises w) p = Some (Pending b)"
    using assms(2) by (simp add: lookup_def)
  with assms(1) have "(5000, CbStopTimeout p, True) \<in> set (timers w)"
    unfolding consistent_def consistentT_def STOP_TIMEOUT_MS_def by blast
  then obtain t where "t < length (timers w)" "timers w ! t = (5000, CbStopTimeout p, True)"
    by (auto simp add: in_set_conv_nth)
  then have t: "lookup (timers w) t = Some (5000, CbStopTimeout p, True)"
    by (simp add: lookup_def)
  from fire_resolves [OF t pend] t show ?thesis by blast
qed

text \<open>
  Claim C8. Every call of \<open>stopRecording\<close> resolves. With no recorder, or an inactive
  one, the promise is resolved with \<open>null\<close> at once. Otherwise the promise is pending,
  a timer of 5000 ms is armed for it, and it is resolved with the clip (or \<open>null\<close> when no
  chunk was buffered) when the stop event of the recorder comes, and with \<open>null\<close> when
  the timer fires. It never hangs: in every state that a mounted view can reach, each
  promise in the table is resolved already, or its 5000 ms timer is still pending and
  resolves it with \<open>null\<close> when it fires.
\<close>

theorem stopRecording_resolves:
  "((case mediaRecorder w of None \<Rightarrow> True | Some (r, st) \<Rightarrow> st = Inactive) \<longrightarrow>
      stopRecording w = (length (promises w), w\<lparr>promises := promises w @ [Resolved None]\<rparr>)) \<and>
   (mediaRecorder w = Some (r, st) \<and> st \<noteq> Inactive \<longrightarrow>
      fst (stopRecording w) = length (promises w) \<and>
      lookup (promises (snd (stopRecording w))) (length (promises w)) = Some (Pending False) \<and>
      lookup (timers (snd (stopRecording w))) (length (timers w))
        = Some (5000, CbStopTimeout (length (promises w)), True) \<and>
      lookup (promises (handle (RecorderStop r) (snd (stopRecording w)))) (length (promises w))
        = Some (Resolved (if audioChunksRef w = [] then None else Some (audioChunksRef w))) \<and>
      lookup (promises (handle (TimerFired (length (timers w))) (snd (stopRecording w))))
          (length (promises w))
        = Some (Resolved None)) \<and>
   (p < length (promises (run evs (mount (initial session recognition parse add)))) \<longrightarrow>
      (\<exists>v. lookup (promises (run evs (mount (initial session recognition parse add)))) p
             = Some (Resolved v)) \<or>
      (\<exists>t. lookup (timers (run evs (mount (initial session recognition parse add)))) t
             = Some (5000, CbStopTimeout p, True) \<and>
           lookup (promises (handle (TimerFired t)
                     (run evs (mount (initial session recognition parse add))))) p
             = Some (Resolved None)))"
proof (intro conjI impI)
  assume "case mediaRecorder w of None \<Rightarrow> True | Some (r, st) \<Rightarrow> st = Inactive"
  then show "stopRecording w
      = (length (promises w), w\<lparr>promises := promises w @ [Resolved None]\<rparr>)"
    by (rule stop_immediate)
next
  assume a: "mediaRecorder w = Some (r, st) \<and> st \<noteq> Inactive"
  then have m: "mediaRecorder w = Some (r, st)" and st: "st \<noteq> Inactive" by simp_all
  show "fst (stopRecording w) = length (promises w)" by (rule stop_active(1) [OF m st])
  show "lookup (promises (snd (stopRecording w))) (length (promises w)) = Some (Pending False)"
    by (rule stop_active(2) [OF m st])
  show "lookup (timers (snd (stopRecording w))) (length (timers w))
        = Some (5000, CbStopTimeout (length (promises w)), True)"
    by (rule stop_active(3) [OF m st])
  show "lookup (promises (handle (RecorderStop r) (snd (stopRecording w)))) (length (promises w))
        = Some (Resolved (if audioChunksRef w = [] then None else Some (audioChunksRef w)))"
    using stop_then_event(1) [OF m st] by simp
  show "lookup (promises (handle (TimerFired (length (timers w))) (snd (stopRecording w))))
          (length (promises w)) = Some (Resolved None)"
    using stop_then_event(2) [OF m st] by simp
next
  let ?W = "run evs (mount (initial session recognition parse add))"
  assume p: "p < length (promises ?W)"
  have "consistent ?W" by (rule consistent_run [OF consistent_initial])
  from reachable_promise [OF this p]
  show "(\<exists>v. lookup (promises ?W) p = Some (Resolved v)) \<or>
        (\<exists>t. lookup (timers ?W) t = Some (5000, CbStopTimeout p, True) \<and>
             lookup (promises (handle (TimerFired t) ?W)) p = Some (Resolved None))"
    by simp
qed

theorem stopRecording_resolves_witness:
  "(case mediaRecorder example_world of None \<Rightarrow> True | Some (r, st) \<Rightarrow> st = Inactive) \<and>
   stopRecording example_world = (0, example_world\<lparr>promises := [Resolved None]\<rparr>) \<and>
   mediaRecorder (run [HoldStart example_media] example_world) = Some (0, Recording) \<and>
   lookup (promises (handle (TimerFired 0)
      (snd (stopRecording (run [HoldStart example_media] example_world))))) 0
     = Some (Resolved None) \<and>
   0 < length (promises (run silent_turn example_world)) \<and>
   lookup (timers (run silent_turn example_world)) 0 = Some (5000, CbStopTimeout 0, True) \<and>
   lookup (promises (handle (TimerFired 0) (run silent_turn example_world))) 0
     = Some (Resolved None)"
  using stopRecording_resolves [where w = example_world and r = 0 and st = Inactive and p = 0
          and evs = silent_turn and session = example_session and recognition = True
          and parse = example_parse and add = example_plus]
        stopRecording_resolves [where w = "run [HoldStart example_media] example_world"
          and r = 0 and st = Recording and p = 0
          and evs = silent_turn and session = example_session and recognition = True
          and parse = example_parse and add = example_plus]
  by (simp add: silent_turn_def example_defs model_defs Let_def)

end
